theory Spec2Isabelle
  imports Main "HOL-Library.Word"
begin

unbundle bit_operations_syntax

section \<open>Memory, machine integers and build configuration\<close>

text \<open>
  The frame queuer of \<^verbatim>\<open>net/sixlowpan/sixlowpan_framelist.c\<close> works on byte buffers
  through pointers.  A pointer is modelled by the bytes found from it on: a map from the
  offset to the byte.  The capacity of a buffer is not part of the map; the length fields
  of a frame say how much of it is meant.

  \<^verbatim>\<open>uint8_t\<close> and \<^verbatim>\<open>uint16_t\<close> are words of that width, \<^verbatim>\<open>size_t\<close> is the unsigned
  32 bit word of the 32 bit targets, and a C \<^verbatim>\<open>int\<close> is an integer (every \<^verbatim>\<open>int\<close>
  expression of the file combines values of at most 16 bits with the frame length, so
  none overflows).  A conversion of the C source appears as \<open>ucast\<close>, \<open>uint\<close>, \<open>unat\<close>
  or \<open>word_of_int\<close> at the same place.
\<close>

type_synonym byte = "8 word"
type_synonym mem = "nat \<Rightarrow> byte"
type_synonym size_t = "32 word"
type_synonym rimeaddr_s = "byte list"

definition memcpy :: "mem \<Rightarrow> nat \<Rightarrow> mem \<Rightarrow> nat \<Rightarrow> nat \<Rightarrow> mem" where
  "memcpy dst d src s n = (\<lambda>i. if d \<le> i \<and> i < d + n then src (s + (i - d)) else dst i)"

text \<open>\<^verbatim>\<open>memmove\<close> reads all of the source before it writes, which the functional copy does.\<close>

definition memmove :: "mem \<Rightarrow> nat \<Rightarrow> mem \<Rightarrow> nat \<Rightarrow> nat \<Rightarrow> mem" where
  "memmove dst d src s n = memcpy dst d src s n"

text \<open>
  The preprocessor symbols that select code in the file.  The compression scheme is one
  of three: \<^verbatim>\<open>CONFIG_NET_6LOWPAN_COMPRESSION_IPv6\<close> (no compression),
  \<^verbatim>\<open>CONFIG_NET_6LOWPAN_COMPRESSION_HC1\<close> or \<^verbatim>\<open>CONFIG_NET_6LOWPAN_COMPRESSION_HC06\<close>.
\<close>

datatype compression = COMPRESSION_IPv6 | COMPRESSION_HC1 | COMPRESSION_HC06

record config =
  CONFIG_NET_6LOWPAN_FRAMELEN :: int
  CONFIG_NET_6LOWPAN_FRAG :: bool
  CONFIG_NET_6LOWPAN_COMPRESSION :: compression
  CONFIG_NET_6LOWPAN_COMPRESSION_THRESHOLD :: int
  CONFIG_NET_6LOWPAN_RIMEADDR_SIZE :: nat
  CONFIG_NET_TCP :: bool
  CONFIG_NET_UDP :: bool
  CONFIG_NET_ICMPv6 :: bool

text \<open>
  Modelled from the spec: the macros of \<^verbatim>\<open>sixlowpan_internal.h\<close>, which is not among the
  sources.  The dispatch byte of uncompressed IPv6 is \<^verbatim>\<open>0x41\<close> and one byte long, the
  IPv6 header has 40 bytes, the FRAG1 header 4 and the FRAGN header 5, the FRAG1 dispatch
  is \<^verbatim>\<open>11000\<close> and the FRAGN dispatch \<^verbatim>\<open>11100\<close> in the top five bits of the first byte,
  and the FRAGN payload size is masked with \<^verbatim>\<open>0xf8\<close>.  A fragment header holds the
  dispatch and datagram size in bytes 0 and 1, the tag in bytes 2 and 3, the offset in
  byte 4.
\<close>

abbreviation (input) SIXLOWPAN_DISPATCH_IPV6 :: byte where "SIXLOWPAN_DISPATCH_IPV6 \<equiv> 0x41"
abbreviation (input) SIXLOWPAN_IPV6_HDR_LEN :: "'a::one" where "SIXLOWPAN_IPV6_HDR_LEN \<equiv> 1"
abbreviation (input) IPv6_HDRLEN :: "'a::numeral" where "IPv6_HDRLEN \<equiv> 40"
abbreviation (input) SIXLOWPAN_FRAG1_HDR_LEN :: "'a::numeral" where "SIXLOWPAN_FRAG1_HDR_LEN \<equiv> 4"
abbreviation (input) SIXLOWPAN_FRAGN_HDR_LEN :: "'a::numeral" where "SIXLOWPAN_FRAGN_HDR_LEN \<equiv> 5"
abbreviation (input) SIXLOWPAN_DISPATCH_FRAG1 :: "16 word" where "SIXLOWPAN_DISPATCH_FRAG1 \<equiv> 0xc0"
abbreviation (input) SIXLOWPAN_DISPATCH_FRAGN :: "16 word" where "SIXLOWPAN_DISPATCH_FRAGN \<equiv> 0xe0"
abbreviation (input) SIXLOWPAN_DISPATCH_FRAG_MASK :: int where "SIXLOWPAN_DISPATCH_FRAG_MASK \<equiv> 0xf8"
abbreviation (input) RIME_FRAG_DISPATCH_SIZE :: nat where "RIME_FRAG_DISPATCH_SIZE \<equiv> 0"
abbreviation (input) RIME_FRAG_TAG :: nat where "RIME_FRAG_TAG \<equiv> 2"
abbreviation (input) RIME_FRAG_OFFSET :: nat where "RIME_FRAG_OFFSET \<equiv> 4"

text \<open>
  Modelled from the spec: \<^verbatim>\<open>sizeof(struct udp_hdr_s)\<close> and
  \<^verbatim>\<open>sizeof(struct icmpv6_hdr_s)\<close>, 8 bytes each; the structures are declared outside
  the sources.
\<close>

abbreviation (input) sizeof_udp_hdr_s :: "16 word" where "sizeof_udp_hdr_s \<equiv> 8"
abbreviation (input) sizeof_icmpv6_hdr_s :: "16 word" where "sizeof_icmpv6_hdr_s \<equiv> 8"

text \<open>
  The protocol numbers of \<^verbatim>\<open>include/nuttx/net/ip.h\<close> are those of the IPv6 next-header
  field, and \<^verbatim>\<open>E2BIG\<close> is errno 7.
\<close>

abbreviation (input) IP_PROTO_TCP :: byte where "IP_PROTO_TCP \<equiv> 6"
abbreviation (input) IP_PROTO_UDP :: byte where "IP_PROTO_UDP \<equiv> 17"
abbreviation (input) IP_PROTO_ICMP6 :: byte where "IP_PROTO_ICMP6 \<equiv> 58"
abbreviation (input) OK :: int where "OK \<equiv> 0"
abbreviation (input) E2BIG :: int where "E2BIG \<equiv> 7"

text \<open>
  \<^verbatim>\<open>PUTINT16(ptr, index, value)\<close> stores the 16 bit value with its high byte first.  The
  pointer is a buffer and the offset \<open>base\<close> of \<^verbatim>\<open>ptr\<close> in it.  \<open>GETINT16\<close> reads such a
  value back, as the receiver of a frame does.
\<close>

definition PUTINT16 :: "mem \<Rightarrow> nat \<Rightarrow> nat \<Rightarrow> 16 word \<Rightarrow> mem" where
  "PUTINT16 ptr base index v =
     (ptr(base + index := ucast (drop_bit 8 v AND 0xff)))
         (base + index + 1 := ucast (v AND 0xff))"

definition GETINT16 :: "mem \<Rightarrow> nat \<Rightarrow> nat \<Rightarrow> 16 word" where
  "GETINT16 ptr base index =
     push_bit 8 (ucast (ptr (base + index))) OR ucast (ptr (base + index + 1))"

section \<open>Data\<close>

text \<open>
  \<^verbatim>\<open>struct ipv6_hdr_s\<close> is the 40 byte IPv6 header as it is sent, with \<^verbatim>\<open>proto\<close> in byte
  6; in \<^verbatim>\<open>struct ipv6tcp_hdr_s\<close> the TCP header follows it, with \<^verbatim>\<open>tcpoffset\<close> in its
  byte 12.  The pointer \<^verbatim>\<open>ipv6hdr\<close> is the memory of the header and of what follows it.
\<close>

definition ipv6_proto :: "mem \<Rightarrow> byte" where
  "ipv6_proto ipv6hdr = ipv6hdr 6"

definition tcp_tcpoffset :: "mem \<Rightarrow> byte" where
  "tcp_tcpoffset ipv6hdr = ipv6hdr (IPv6_HDRLEN + 12)"

text \<open>
  An I/O buffer \<^verbatim>\<open>struct iob_s\<close>.  The link \<^verbatim>\<open>io_flink\<close> is the order of the list that
  holds the buffers.
\<close>

record iob_s =
  io_len :: "16 word"
  io_offset :: "16 word"
  io_pktlen :: "16 word"
  io_data :: mem

text \<open>
  The interface \<^verbatim>\<open>struct ieee802154_driver_s\<close>: the list of frames to send (empty for
  \<^verbatim>\<open>NULL\<close>, the head first), the datagram tag and the PAN id.
\<close>

record ieee802154_driver_s =
  i_framelist :: "iob_s list"
  i_dgramtag :: "16 word"
  i_panid :: "16 word"

text \<open>
  The globals \<^verbatim>\<open>g_uncomp_hdrlen\<close> and \<^verbatim>\<open>g_frame_hdrlen\<close>, both \<^verbatim>\<open>uint8_t\<close>.  The
  attribute and address arrays \<^verbatim>\<open>g_pktattrs\<close> and \<^verbatim>\<open>g_pktaddrs\<close> are written for the
  MAC framer only, which is outside the sources; they are left out.
\<close>

record scratch =
  g_uncomp_hdrlen :: "8 word"
  g_frame_hdrlen :: "8 word"

text \<open>
  Modelled from the spec: the collaborators of the frame queuer that are not among the
  sources.  The allocator hands out buffers (the contents of the \<open>n\<close>-th are
  \<open>ext_iob_data n\<close>); \<^verbatim>\<open>sixlowpan_src_panid\<close> reports the PAN id or fails;
  \<^verbatim>\<open>sixlowpan_send_hdrlen\<close> is a query that returns the size of the MAC header or a
  negative failure and changes nothing; \<^verbatim>\<open>sixlowpan_framecreate\<close> writes the MAC header
  at offset 0 and returns the number of bytes written, the value of the query before;
  the HC1 and HC06 compressors write into the frame and advance the two globals.
\<close>

record extern =
  ext_iob_data :: "nat \<Rightarrow> mem"
  ext_src_panid :: "ieee802154_driver_s \<Rightarrow> 16 word option"
  ext_send_hdrlen :: "ieee802154_driver_s \<Rightarrow> 16 word \<Rightarrow> int"
  ext_mac_header :: "ieee802154_driver_s \<Rightarrow> 16 word \<Rightarrow> mem"
  ext_compresshdr_hc1 ::
    "ieee802154_driver_s \<Rightarrow> mem \<Rightarrow> rimeaddr_s \<Rightarrow> scratch \<times> mem \<Rightarrow> scratch \<times> mem"
  ext_compresshdr_hc06 ::
    "ieee802154_driver_s \<Rightarrow> mem \<Rightarrow> rimeaddr_s \<Rightarrow> scratch \<times> mem \<Rightarrow> scratch \<times> mem"

text \<open>
  \<^verbatim>\<open>iob_alloc(false)\<close> waits for a buffer, so it returns one; \<open>pool\<close> counts the buffers
  handed out and not given back.  The queuer clears the three counters of the buffer at
  once (lines 277 to 280 and 443 to 446).
\<close>

definition iob_alloc :: "extern \<Rightarrow> nat \<Rightarrow> iob_s \<times> nat" where
  "iob_alloc ext pool =
     (\<lparr>io_len = 0, io_offset = 0, io_pktlen = 0, io_data = ext_iob_data ext pool\<rparr>,
      pool + 1)"

definition sixlowpan_framecreate ::
  "extern \<Rightarrow> ieee802154_driver_s \<Rightarrow> iob_s \<Rightarrow> 16 word \<Rightarrow> int \<Rightarrow> iob_s" where
  "sixlowpan_framecreate ext ieee iob panid hdrlen =
     iob\<lparr>io_data := memcpy (io_data iob) 0 (ext_mac_header ext ieee panid) 0 (nat hdrlen)\<rparr>"

section \<open>The uncompressed IPv6 dispatch\<close>

text \<open>
  The \<^verbatim>\<open>switch\<close> of \<^verbatim>\<open>sixlowpan_compress_ipv6hdr\<close> (lines 130 to 161): the size of the
  protocol header, or \<open>None\<close> in the \<^verbatim>\<open>default\<close> case, which returns.  A case is there
  only when its protocol is configured.
\<close>

definition protosize_of :: "config \<Rightarrow> mem \<Rightarrow> 16 word option" where
  "protosize_of cfg ipv6hdr =
     (if CONFIG_NET_TCP cfg \<and> ipv6_proto ipv6hdr = IP_PROTO_TCP
        then Some (push_bit 2 (drop_bit 4 (ucast (tcp_tcpoffset ipv6hdr) :: 16 word)))
      else if CONFIG_NET_UDP cfg \<and> ipv6_proto ipv6hdr = IP_PROTO_UDP
        then Some sizeof_udp_hdr_s
      else if CONFIG_NET_ICMPv6 cfg \<and> ipv6_proto ipv6hdr = IP_PROTO_ICMP6
        then Some sizeof_icmpv6_hdr_s
      else None)"

definition sixlowpan_compress_ipv6hdr ::
  "config \<Rightarrow> mem \<Rightarrow> scratch \<times> mem \<Rightarrow> scratch \<times> mem" where
  "sixlowpan_compress_ipv6hdr cfg ipv6hdr = (\<lambda>(g, fptr).
     let fptr = fptr(unat (g_frame_hdrlen g) := SIXLOWPAN_DISPATCH_IPV6);
         g = g\<lparr>g_frame_hdrlen := g_frame_hdrlen g + SIXLOWPAN_IPV6_HDR_LEN\<rparr>;
         fptr = memcpy fptr (unat (g_frame_hdrlen g)) ipv6hdr 0 IPv6_HDRLEN;
         g = g\<lparr>g_frame_hdrlen := g_frame_hdrlen g + IPv6_HDRLEN\<rparr>;
         g = g\<lparr>g_uncomp_hdrlen := g_uncomp_hdrlen g + IPv6_HDRLEN\<rparr>
     in case protosize_of cfg ipv6hdr of
          None \<Rightarrow> (g, fptr)
        | Some protosize \<Rightarrow>
            let fptr = memcpy fptr (unat (g_frame_hdrlen g))
                         ipv6hdr (unat (g_uncomp_hdrlen g)) (unat protosize);
                g = g\<lparr>g_frame_hdrlen := g_frame_hdrlen g + ucast protosize\<rparr>;
                g = g\<lparr>g_uncomp_hdrlen := g_uncomp_hdrlen g + ucast protosize\<rparr>
            in (g, fptr))"

section \<open>The frame queuer\<close>

text \<open>
  The choice of the compressor (lines 313 to 332).  Without
  \<^verbatim>\<open>CONFIG_NET_6LOWPAN_COMPRESSION_IPv6\<close> a datagram of at least the threshold goes to
  the configured compressor, every other one to the IPv6 dispatch.
\<close>

definition compress_headers ::
  "config \<Rightarrow> extern \<Rightarrow> ieee802154_driver_s \<Rightarrow> mem \<Rightarrow> size_t \<Rightarrow> rimeaddr_s
     \<Rightarrow> scratch \<times> mem \<Rightarrow> scratch \<times> mem" where
  "compress_headers cfg ext ieee destip buflen destmac gf =
     (if CONFIG_NET_6LOWPAN_COMPRESSION cfg \<noteq> COMPRESSION_IPv6
         \<and> word_of_int (CONFIG_NET_6LOWPAN_COMPRESSION_THRESHOLD cfg) \<le> buflen
      then (case CONFIG_NET_6LOWPAN_COMPRESSION cfg of
              COMPRESSION_HC1 \<Rightarrow> ext_compresshdr_hc1 ext ieee destip destmac gf
            | _ \<Rightarrow> ext_compresshdr_hc06 ext ieee destip destmac gf)
      else sixlowpan_compress_ipv6hdr cfg destip gf)"

text \<open>
  The test of line 338, \<^verbatim>\<open>buflen > (CONFIG_NET_6LOWPAN_FRAMELEN - g_frame_hdrlen)\<close>: the
  difference is an \<^verbatim>\<open>int\<close> and is converted to \<^verbatim>\<open>size_t\<close> for the comparison.
\<close>

definition needs_fragmentation :: "config \<Rightarrow> scratch \<Rightarrow> size_t \<Rightarrow> bool" where
  "needs_fragmentation cfg g buflen \<longleftrightarrow>
     (word_of_int (CONFIG_NET_6LOWPAN_FRAMELEN cfg - uint (g_frame_hdrlen g)) :: size_t) < buflen"

text \<open>
  What the loop of the FRAGN frames reads and does not change, and what it changes: the
  head of the frame list and the frames linked behind it, the buffers handed out, and
  \<^verbatim>\<open>outlen\<close>.  The pointer \<^verbatim>\<open>frame1\<close> is the data of the head.
\<close>

record fragn_env =
  fe_cfg :: config
  fe_ext :: extern
  fe_ieee :: ieee802154_driver_s
  fe_framer_hdrlen :: int
  fe_frag1_hdrlen :: "16 word"
  fe_pktlen :: "16 word"
  fe_buf :: mem
  fe_buflen :: size_t

record fragn_state =
  fs_head :: iob_s
  fs_rest :: "iob_s list"
  fs_pool :: nat
  fs_outlen :: "16 word"

text \<open>One pass of the loop body, lines 432 to 511.\<close>

definition fragn_body :: "fragn_env \<Rightarrow> fragn_state \<Rightarrow> fragn_state" where
  "fragn_body env s =
     (let (iob, pool) = iob_alloc (fe_ext env) (fs_pool s);
          ieee = fe_ieee env;
          framer_hdrlen = fe_framer_hdrlen env;
          frame1 = io_data (fs_head s);
          iob = sixlowpan_framecreate (fe_ext env) ieee iob (i_panid ieee) framer_hdrlen;
          fptr = io_data iob;
          fragptr = nat framer_hdrlen;
          fptr = memcpy fptr (fragptr + SIXLOWPAN_FRAGN_HDR_LEN)
                   frame1 (nat framer_hdrlen + SIXLOWPAN_FRAG1_HDR_LEN)
                   (unat (word_of_int (uint (fe_frag1_hdrlen env) - framer_hdrlen) :: size_t));
          fragn_hdrlen = fe_frag1_hdrlen env - SIXLOWPAN_FRAG1_HDR_LEN;
          fptr = PUTINT16 fptr fragptr RIME_FRAG_DISPATCH_SIZE
                   (push_bit 8 SIXLOWPAN_DISPATCH_FRAGN OR fe_pktlen env);
          fptr = PUTINT16 fptr fragptr RIME_FRAG_TAG (i_dgramtag ieee);
          fptr = fptr(fragptr + RIME_FRAG_OFFSET := ucast (drop_bit 3 (fs_outlen s)));
          fragn_hdrlen = fragn_hdrlen + SIXLOWPAN_FRAGN_HDR_LEN;
          paysize = (word_of_int
                       ((CONFIG_NET_6LOWPAN_FRAMELEN (fe_cfg env) - uint fragn_hdrlen)
                          AND SIXLOWPAN_DISPATCH_FRAG_MASK) :: 16 word);
          paysize = (if fe_buflen env - ucast (fs_outlen s) < ucast paysize
                     then ucast (fe_buflen env - ucast (fs_outlen s)) else paysize);
          fptr = memcpy fptr (unat fragn_hdrlen) (fe_buf env) (unat (fs_outlen s)) (unat paysize);
          iob = iob\<lparr>io_data := fptr, io_len := paysize + fragn_hdrlen\<rparr>;
          outlen = fs_outlen s + paysize
      in \<lparr>fs_head = (fs_head s)\<lparr>io_pktlen := io_pktlen (fs_head s) + io_len iob\<rparr>,
          fs_rest = fs_rest s @ [iob],
          fs_pool = pool,
          fs_outlen = outlen\<rparr>)"

text \<open>
  The loop \<^verbatim>\<open>while (outlen < buflen)\<close> of line 430.  It need not end, so its result is
  optional: \<open>None\<close> when it runs for ever.
\<close>

partial_function (option) fragn_loop :: "fragn_env \<Rightarrow> fragn_state \<Rightarrow> fragn_state option" where
  "fragn_loop env s =
     (if ucast (fs_outlen s) < fe_buflen env then fragn_loop env (fragn_body env s)
      else Some s)"

declare fragn_loop.simps [code]

text \<open>
  The first fragment, lines 365 to 428: the buffer allocated at the start becomes the
  FRAG1 frame and the head of the frame list.  The result is the state in which the loop
  starts, with the globals and the header length of the first frame.
\<close>

definition frag1 ::
  "config \<Rightarrow> extern \<Rightarrow> ieee802154_driver_s \<Rightarrow> mem \<Rightarrow> size_t \<Rightarrow> 16 word \<Rightarrow> int
     \<Rightarrow> scratch \<Rightarrow> iob_s \<Rightarrow> nat \<Rightarrow> scratch \<times> fragn_env \<times> fragn_state" where
  "frag1 cfg ext ieee buf buflen dest_panid framer_hdrlen g iob pool =
     (let iob = sixlowpan_framecreate ext ieee iob dest_panid framer_hdrlen;
          fptr = io_data iob;
          fragptr = nat framer_hdrlen;
          fptr = memmove fptr (fragptr + SIXLOWPAN_FRAG1_HDR_LEN) fptr fragptr
                   (unat (word_of_int (uint (g_frame_hdrlen g) - framer_hdrlen) :: size_t));
          pktlen = (ucast (buflen + ucast (g_uncomp_hdrlen g)) :: 16 word);
          fptr = PUTINT16 fptr fragptr RIME_FRAG_DISPATCH_SIZE
                   (push_bit 8 SIXLOWPAN_DISPATCH_FRAG1 OR pktlen);
          fptr = PUTINT16 fptr fragptr RIME_FRAG_TAG (i_dgramtag ieee);
          g = g\<lparr>g_frame_hdrlen := g_frame_hdrlen g + SIXLOWPAN_FRAG1_HDR_LEN\<rparr>;
          paysize = (word_of_int
                       ((CONFIG_NET_6LOWPAN_FRAMELEN cfg - uint (g_frame_hdrlen g)) AND NOT 7)
                     :: 16 word);
          fptr = memcpy fptr (unat (g_frame_hdrlen g)) buf 0 (unat paysize);
          iob = iob\<lparr>io_data := fptr, io_len := paysize + ucast (g_frame_hdrlen g)\<rparr>;
          outlen = paysize;
          iob = iob\<lparr>io_pktlen := io_len iob\<rparr>;
          frag1_hdrlen = (ucast (g_frame_hdrlen g) :: 16 word)
      in (g,
          \<lparr>fe_cfg = cfg, fe_ext = ext, fe_ieee = ieee, fe_framer_hdrlen = framer_hdrlen,
           fe_frag1_hdrlen = frag1_hdrlen, fe_pktlen = pktlen, fe_buf = buf,
           fe_buflen = buflen\<rparr>,
          \<lparr>fs_head = iob, fs_rest = [], fs_pool = pool, fs_outlen = outlen\<rparr>))"

text \<open>
  The single frame of lines 527 to 554.
\<close>

definition single_frame ::
  "extern \<Rightarrow> ieee802154_driver_s \<Rightarrow> mem \<Rightarrow> size_t \<Rightarrow> 16 word \<Rightarrow> int \<Rightarrow> scratch \<Rightarrow> iob_s
     \<Rightarrow> iob_s" where
  "single_frame ext ieee buf buflen dest_panid framer_hdrlen g iob =
     (let iob = sixlowpan_framecreate ext ieee iob dest_panid framer_hdrlen;
          fptr = memcpy (io_data iob) (unat (g_frame_hdrlen g)) buf 0 (unat buflen);
          iob = iob\<lparr>io_data := fptr, io_len := ucast (buflen + ucast (g_frame_hdrlen g))\<rparr>
      in iob\<lparr>io_pktlen := io_len iob\<rparr>)"

text \<open>
  The headers of the first buffer, lines 311 to 332, for a header length
  \<open>framer_hdrlen\<close> that the MAC framer reported without failure: the globals and the
  buffer after the compression step.  Without a destination address the datagram is a
  broadcast to the address of zeros (lines 262 to 266); the PAN id of the destination is
  that of the source, or \<^verbatim>\<open>0xffff\<close> when the source has none (lines 297 and 298).
\<close>

definition dest_panid_of :: "extern \<Rightarrow> ieee802154_driver_s \<Rightarrow> 16 word" where
  "dest_panid_of ext ieee = (case ext_src_panid ext ieee of None \<Rightarrow> 0xffff | Some p \<Rightarrow> p)"

definition destmac_of :: "config \<Rightarrow> rimeaddr_s option \<Rightarrow> rimeaddr_s" where
  "destmac_of cfg destmac =
     (case destmac of None \<Rightarrow> replicate (CONFIG_NET_6LOWPAN_RIMEADDR_SIZE cfg) 0 | Some a \<Rightarrow> a)"

definition queue_headers ::
  "config \<Rightarrow> extern \<Rightarrow> ieee802154_driver_s \<Rightarrow> mem \<Rightarrow> size_t \<Rightarrow> rimeaddr_s option
     \<Rightarrow> int \<Rightarrow> iob_s \<Rightarrow> scratch \<times> iob_s" where
  "queue_headers cfg ext ieee destip buflen destmac framer_hdrlen iob =
     (let g = \<lparr>g_uncomp_hdrlen = 0, g_frame_hdrlen = 0\<rparr>;
          g = g\<lparr>g_frame_hdrlen := word_of_int framer_hdrlen\<rparr>;
          (g, fptr) = compress_headers cfg ext ieee destip buflen (destmac_of cfg destmac)
                        (g, io_data iob)
      in (g, iob\<lparr>io_data := fptr\<rparr>))"

text \<open>
  \<^verbatim>\<open>sixlowpan_queue_frames\<close>.  The result is \<open>None\<close> when the call does not return, and
  else the returned value with the interface, the globals and the count of buffers in
  use as the call leaves them.
\<close>

definition sixlowpan_queue_frames ::
  "config \<Rightarrow> extern \<Rightarrow> ieee802154_driver_s \<Rightarrow> nat \<Rightarrow> mem \<Rightarrow> mem \<Rightarrow> size_t
     \<Rightarrow> rimeaddr_s option \<Rightarrow> (int \<times> ieee802154_driver_s \<times> scratch \<times> nat) option" where
  "sixlowpan_queue_frames cfg ext ieee pool destip buf buflen destmac =
     (let g0 = \<lparr>g_uncomp_hdrlen = 0, g_frame_hdrlen = 0\<rparr>;
          (iob, pool1) = iob_alloc ext pool;
          dest_panid = dest_panid_of ext ieee;
          framer_hdrlen = ext_send_hdrlen ext ieee dest_panid
      in if framer_hdrlen < 0 then Some (framer_hdrlen, ieee, g0, pool1)
         else
           let (g, iob) = queue_headers cfg ext ieee destip buflen destmac framer_hdrlen iob
           in if needs_fragmentation cfg g buflen then
                (if CONFIG_NET_6LOWPAN_FRAG cfg then
                   (let (g, env, s0) =
                          frag1 cfg ext ieee buf buflen dest_panid framer_hdrlen g iob pool1
                    in case fragn_loop env s0 of
                         None \<Rightarrow> None
                       | Some s \<Rightarrow>
                           Some (OK,
                                 ieee\<lparr>i_framelist := fs_head s # fs_rest s,
                                      i_dgramtag := i_dgramtag ieee + 1\<rparr>,
                                 g, fs_pool s))
                 else Some (- E2BIG, ieee, g, pool1))
              else
                Some (OK,
                      ieee\<lparr>i_framelist :=
                             [single_frame ext ieee buf buflen dest_panid framer_hdrlen g iob]\<rparr>,
                      g, pool1))"

section \<open>What is observed of a call\<close>

text \<open>
  The header length that the MAC framer reports for the call, and the globals and the
  first buffer as the compression step leaves them (they exist when the report is not a
  failure).
\<close>

definition framer_hdrlen_of :: "extern \<Rightarrow> ieee802154_driver_s \<Rightarrow> int" where
  "framer_hdrlen_of ext ieee = ext_send_hdrlen ext ieee (dest_panid_of ext ieee)"

definition headers_of ::
  "config \<Rightarrow> extern \<Rightarrow> ieee802154_driver_s \<Rightarrow> nat \<Rightarrow> mem \<Rightarrow> size_t \<Rightarrow> rimeaddr_s option
     \<Rightarrow> scratch \<times> iob_s" where
  "headers_of cfg ext ieee pool destip buflen destmac =
     queue_headers cfg ext ieee destip buflen destmac (framer_hdrlen_of ext ieee)
       (fst (iob_alloc ext pool))"

text \<open>
  A fragment as its receiver reads it.  The fragment header starts behind the MAC header
  of \<open>m\<close> bytes: the datagram size is the low 11 bits of its first two bytes, the
  dispatch the five bits above them, the tag the next two bytes, the offset the byte after
  the tag.  The payload of a frame is what its length counts behind \<open>hdrlen\<close> bytes of
  headers.
\<close>

definition frag_size_field :: "nat \<Rightarrow> iob_s \<Rightarrow> 16 word" where
  "frag_size_field m f = GETINT16 (io_data f) m RIME_FRAG_DISPATCH_SIZE AND 0x07ff"

definition frag_dispatch :: "nat \<Rightarrow> iob_s \<Rightarrow> byte" where
  "frag_dispatch m f = io_data f (m + RIME_FRAG_DISPATCH_SIZE) AND 0xf8"

definition frag_tag :: "nat \<Rightarrow> iob_s \<Rightarrow> 16 word" where
  "frag_tag m f = GETINT16 (io_data f) m RIME_FRAG_TAG"

definition frag_offset :: "nat \<Rightarrow> iob_s \<Rightarrow> byte" where
  "frag_offset m f = io_data f (m + RIME_FRAG_OFFSET)"

definition payload_len :: "nat \<Rightarrow> iob_s \<Rightarrow> nat" where
  "payload_len hdrlen f = unat (io_len f) - hdrlen"

text \<open>
  The offsets of the FRAGN frames \<open>fs\<close>, in the order of the list, when the fragments
  before them carry \<open>acc\<close> bytes of payload: every offset byte is the payload before the
  frame, in units of 8 bytes.
\<close>

fun offsets_from :: "nat \<Rightarrow> nat \<Rightarrow> nat \<Rightarrow> iob_s list \<Rightarrow> bool" where
  "offsets_from m hdrlen acc [] = True"
| "offsets_from m hdrlen acc (f # fs) =
     (unat (frag_offset m f) = acc div 8 \<and> offsets_from m hdrlen (acc + payload_len hdrlen f) fs)"

text \<open>
  What a call returns, when it returns, and the frames that the interface holds after it.
\<close>

definition result_code :: "(int \<times> ieee802154_driver_s \<times> scratch \<times> nat) option \<Rightarrow> int option" where
  "result_code r = map_option fst r"

definition result_frames :: "(int \<times> ieee802154_driver_s \<times> scratch \<times> nat) option \<Rightarrow> iob_s list" where
  "result_frames r = (case r of None \<Rightarrow> [] | Some (ret, ieee', g', pool') \<Rightarrow> i_framelist ieee')"

section \<open>Names for the parts of one pass of the loop\<close>

text \<open>
  The header length of a FRAGN frame, the payload size of a pass and the frame it appends,
  as \<open>fragn_body\<close> computes them.
\<close>

definition fragn_hdrlen_of :: "fragn_env \<Rightarrow> 16 word" where
  "fragn_hdrlen_of env = fe_frag1_hdrlen env - SIXLOWPAN_FRAG1_HDR_LEN + SIXLOWPAN_FRAGN_HDR_LEN"

definition fragn_paysize :: "fragn_env \<Rightarrow> fragn_state \<Rightarrow> 16 word" where
  "fragn_paysize env s =
     (let paysize = (word_of_int
                       ((CONFIG_NET_6LOWPAN_FRAMELEN (fe_cfg env) - uint (fragn_hdrlen_of env))
                          AND SIXLOWPAN_DISPATCH_FRAG_MASK) :: 16 word)
      in if fe_buflen env - ucast (fs_outlen s) < ucast paysize
         then ucast (fe_buflen env - ucast (fs_outlen s)) else paysize)"

definition fragn_frame :: "fragn_env \<Rightarrow> fragn_state \<Rightarrow> iob_s" where
  "fragn_frame env s = last (fs_rest (fragn_body env s))"

text \<open>
  The state of the loop between two passes, for a MAC header of \<open>m\<close> bytes, header lengths
  \<open>H\<close> of the first and \<open>Hn\<close> of the following fragments and a datagram of \<open>B\<close> bytes:
  \<^verbatim>\<open>outlen\<close> is the payload of the frames built so far and does not pass \<open>B\<close>, the payload
  of the first fragment and of all but the last of the others is a multiple of 8 (of the
  last as well while the loop goes on), and every offset byte is the payload before its
  frame in units of 8 bytes.
\<close>

definition frag_inv :: "nat \<Rightarrow> nat \<Rightarrow> nat \<Rightarrow> nat \<Rightarrow> fragn_state \<Rightarrow> bool" where
  "frag_inv m H Hn B s \<longleftrightarrow>
     unat (fs_outlen s) \<le> B \<and>
     payload_len H (fs_head s) + sum_list (map (payload_len Hn) (fs_rest s))
       = unat (fs_outlen s) \<and>
     8 dvd payload_len H (fs_head s) \<and>
     (\<forall>f\<in>set (butlast (fs_rest s)). 8 dvd payload_len Hn f) \<and>
     (unat (fs_outlen s) < B \<longrightarrow> (\<forall>f\<in>set (fs_rest s). 8 dvd payload_len Hn f)) \<and>
     offsets_from m Hn (payload_len H (fs_head s)) (fs_rest s)"

section \<open>Concrete calls\<close>

text \<open>
  The build and the collaborators of the end-to-end scenarios of the specification: frames
  of 127 bytes, fragmentation, the IPv6 dispatch without compression, and a MAC framer
  that reports \<open>m\<close> for the size of its header.  The interface carries the tag \<open>tag\<close>
  and an empty frame list.  The datagrams are a UDP header, a TCP header with the data
  offset 15 (60 bytes), and a header of the unknown protocol 99.
\<close>

definition example_config :: config where
  "example_config =
     \<lparr>CONFIG_NET_6LOWPAN_FRAMELEN = 127, CONFIG_NET_6LOWPAN_FRAG = True,
      CONFIG_NET_6LOWPAN_COMPRESSION = COMPRESSION_IPv6,
      CONFIG_NET_6LOWPAN_COMPRESSION_THRESHOLD = 63, CONFIG_NET_6LOWPAN_RIMEADDR_SIZE = 8,
      CONFIG_NET_TCP = True, CONFIG_NET_UDP = True, CONFIG_NET_ICMPv6 = True\<rparr>"

definition example_extern :: "int \<Rightarrow> extern" where
  "example_extern m =
     \<lparr>ext_iob_data = (\<lambda>_ _. 0), ext_src_panid = (\<lambda>ieee. Some (i_panid ieee)),
      ext_send_hdrlen = (\<lambda>_ _. m), ext_mac_header = (\<lambda>_ _ _. 0xee),
      ext_compresshdr_hc1 = (\<lambda>_ _ _ gf. gf), ext_compresshdr_hc06 = (\<lambda>_ _ _ gf. gf)\<rparr>"

definition example_ieee :: "16 word \<Rightarrow> ieee802154_driver_s" where
  "example_ieee tag = \<lparr>i_framelist = [], i_dgramtag = tag, i_panid = 0xabcd\<rparr>"

definition example_udp :: mem where
  "example_udp = (\<lambda>i. if i = 6 then IP_PROTO_UDP else 0)"

definition example_tcp60 :: mem where
  "example_tcp60 = (\<lambda>i. if i = 6 then IP_PROTO_TCP else if i = 52 then 0xf0 else 0)"

definition example_proto99 :: mem where
  "example_proto99 = (\<lambda>i. if i = 6 then 99 else 0)"

definition example_payload :: mem where
  "example_payload = (\<lambda>_. 0x55)"

section \<open>Evaluation of concrete calls\<close>

lemmas queuer_defs =
  sixlowpan_queue_frames_def iob_alloc_def dest_panid_of_def queue_headers_def destmac_of_def
  compress_headers_def sixlowpan_compress_ipv6hdr_def protosize_of_def ipv6_proto_def
  tcp_tcpoffset_def needs_fragmentation_def single_frame_def sixlowpan_framecreate_def
  memcpy_def memmove_def frag1_def fragn_body_def fragn_loop.simps PUTINT16_def Let_def
  framer_hdrlen_of_def headers_of_def

lemmas example_defs =
  example_config_def example_extern_def example_ieee_def example_udp_def example_tcp60_def
  example_proto99_def example_payload_def

section \<open>Arithmetic of the payload sizes\<close>

lemma int_and_not_7: "((x::int) AND NOT 7) = x - x mod 8"
proof -
  have "(7::int) = mask 3" by (simp add: mask_eq_exp_minus_1)
  then have "x AND NOT 7 = x AND NOT (mask 3)" by simp
  also have "\<dots> = push_bit 3 (drop_bit 3 x)"
    by (rule bit_eqI) (auto simp add: bit_simps)
  also have "\<dots> = 8 * (x div 8)" by (simp add: push_bit_eq_mult drop_bit_eq_div)
  also have "\<dots> = x - x mod 8" by (simp add: minus_mod_eq_mult_div)
  finally show ?thesis .
qed

lemma int_and_f8: "((x::int) AND 0xf8) = x mod 256 - x mod 8"
proof -
  have e: "(0xf8::int) = mask 8 AND NOT 7" by (simp add: mask_eq_exp_minus_1)
  have "x AND 0xf8 = (x AND mask 8) AND NOT 7" by (simp only: e and.assoc)
  also have "\<dots> = take_bit 8 x - take_bit 8 x mod 8" by (simp only: int_and_not_7 take_bit_eq_mask)
  also have "\<dots> = x mod 256 - x mod 8" 
    by (simp add: take_bit_eq_mod mod_mod_cancel)
  finally show ?thesis .
qed

lemma fragn_body_outlen: "fs_outlen (fragn_body env s) = fs_outlen s + fragn_paysize env s"
  by (simp add: fragn_body_def fragn_paysize_def fragn_hdrlen_of_def iob_alloc_def Let_def)

lemma fragn_body_pool: "fs_pool (fragn_body env s) = fs_pool s + 1"
  by (simp add: fragn_body_def iob_alloc_def Let_def)

lemma fragn_body_rest: "fs_rest (fragn_body env s) = fs_rest s @ [fragn_frame env s]"
  by (simp add: fragn_frame_def fragn_body_def iob_alloc_def Let_def)

lemma fragn_body_head:
  "io_len (fs_head (fragn_body env s)) = io_len (fs_head s)"
  "io_data (fs_head (fragn_body env s)) = io_data (fs_head s)"
  "io_pktlen (fs_head (fragn_body env s)) = io_pktlen (fs_head s) + io_len (fragn_frame env s)"
  by (simp_all add: fragn_frame_def fragn_body_def iob_alloc_def Let_def)

lemma fragn_frame_len: "io_len (fragn_frame env s) = fragn_paysize env s + fragn_hdrlen_of env"
  by (simp add: fragn_frame_def fragn_body_def fragn_paysize_def fragn_hdrlen_of_def iob_alloc_def Let_def)


lemma fragn_loop_partial:
  assumes run: "fragn_loop env s0 = Some s'"
    and init: "I s0"
    and step: "\<And>s. I s \<Longrightarrow> ucast (fs_outlen s) < fe_buflen env \<Longrightarrow> I (fragn_body env s)"
  shows "I s' \<and> \<not> ucast (fs_outlen s') < fe_buflen env"
proof -
  let ?P = "\<lambda>e s t. e = env \<longrightarrow> I s \<longrightarrow> I t \<and> \<not> ucast (fs_outlen t) < fe_buflen env"
  have "?P env s0 s'"
  proof (rule fragn_loop.raw_induct [where P = ?P])
    fix f e s t
    assume IH: "\<And>e s t. f e s = Some t \<Longrightarrow> ?P e s t"
      and eq: "(if ucast (fs_outlen s) < fe_buflen e then f e (fragn_body e s) else Some s) = Some t"
    show "?P e s t"
    proof (intro impI)
      assume e: "e = env" and I: "I s"
      show "I t \<and> \<not> ucast (fs_outlen t) < fe_buflen env"
      proof (cases "ucast (fs_outlen s) < fe_buflen e")
        case True
        with eq have "f e (fragn_body e s) = Some t" by simp
        moreover from True e I step have "I (fragn_body e s)" by simp
        ultimately show ?thesis using IH e by blast
      next
        case False
        with eq e I show ?thesis by auto
      qed
    qed
  next
    show "fragn_loop env s0 = Some s'" by (rule run)
  qed
  with init show ?thesis by simp
qed

lemma fragn_loop_total:
  assumes "I s0"
    and "\<And>s. I s \<Longrightarrow> ucast (fs_outlen s) < fe_buflen env \<Longrightarrow>
           I (fragn_body env s) \<and> \<mu> (fragn_body env s) < (\<mu> s :: nat)"
  shows "\<exists>s'. fragn_loop env s0 = Some s' \<and> I s' \<and> \<not> ucast (fs_outlen s') < fe_buflen env"
  using assms(1)
proof (induction "\<mu> s0" arbitrary: s0 rule: less_induct)
  case less
  show ?case
  proof (cases "ucast (fs_outlen s0) < fe_buflen env")
    case True
    from assms(2)[OF less.prems True] less.hyps[of "fragn_body env s0"]
    obtain s' where "fragn_loop env (fragn_body env s0) = Some s'" "I s'"
      "\<not> ucast (fs_outlen s') < fe_buflen env" by blast
    with True show ?thesis by (subst fragn_loop.simps) simp
  next
    case False
    with less.prems show ?thesis by (subst fragn_loop.simps) simp
  qed
qed

lemma fragn_hdrlen_of_eq: "fragn_hdrlen_of env = fe_frag1_hdrlen env + 1"
  by (simp add: fragn_hdrlen_of_def)

lemma and_f8_range: "0 \<le> ((x::int) AND 0xf8)" "((x::int) AND 0xf8) \<le> 248" "8 dvd ((x::int) AND 0xf8)"
proof -
  have a: "x mod 256 mod 8 = x mod 8" by (simp add: mod_mod_cancel)
  have b: "x mod 8 \<le> x mod 256" 
    by (metis a pos_mod_sign zmod_le_nonneg_dividend zero_less_numeral)
  show "0 \<le> (x AND 0xf8)" using b by (simp add: int_and_f8)
  have "x mod 256 \<le> 255" using pos_mod_bound[of 256 x] by simp
  moreover have "x mod 256 - x mod 8 = 8 * (x mod 256 div 8)"
    using a by (metis minus_mod_eq_mult_div)
  ultimately show "(x AND 0xf8) \<le> 248" by (simp add: int_and_f8) 
  show "8 dvd (x AND 0xf8)" 
    using \<open>x mod 256 - x mod 8 = 8 * (x mod 256 div 8)\<close> by (simp add: int_and_f8)
qed

lemma and_f8_le: "0 \<le> x \<Longrightarrow> ((x::int) AND 0xf8) \<le> x"
proof -
  assume "0 \<le> x"
  then have "x mod 256 \<le> x" by (simp add: zmod_le_nonneg_dividend)
  moreover have "0 \<le> x mod 8" by simp
  ultimately show ?thesis by (simp add: int_and_f8)
qed

lemma and_f8_exact: "0 \<le> x \<Longrightarrow> x < 256 \<Longrightarrow> ((x::int) AND 0xf8) = x - x mod 8"
  by (simp add: int_and_f8)

lemma unat_word_of_int_small:
  "0 \<le> k \<Longrightarrow> k < 65536 \<Longrightarrow> unat (word_of_int k :: 16 word) = nat k"
  by (simp add: unat_eq_nat_uint uint_word_of_int_eq take_bit_int_eq_self)

lemma unat_paysize_word: 
  "unat (word_of_int ((x::int) AND 0xf8) :: 16 word) = nat (x AND 0xf8)"
  using and_f8_range(1,2)[of x] by (intro unat_word_of_int_small) auto

lemma unat_ucast_16_32: "unat (ucast (w :: 16 word) :: 32 word) = unat w"
proof -
  have "unat w < 2 ^ 16" using unsigned_less [of w] by simp
  then show ?thesis by (simp add: unsigned_ucast_eq take_bit_nat_eq_self)
qed

lemma unat_sub_32: "unat (b::32 word) < unat (a :: 32 word) \<Longrightarrow> unat (a - b) = unat a - unat b"
  by (meson order_less_le unat_sub word_le_nat_alt)

lemma unat_ucast_32_16: "unat (a :: 32 word) < 65536 \<Longrightarrow> unat (ucast a :: 16 word) = unat a"
  by (simp add: unsigned_ucast_eq take_bit_nat_eq_self)

lemma unat_ucast_32_16_le: "unat (ucast (a :: 32 word) :: 16 word) \<le> unat a"
  by (simp add: unsigned_ucast_eq take_bit_nat_eq_self)

lemma unat_add_16: "unat (a :: 16 word) + unat b < 65536 \<Longrightarrow> unat (a + b) = unat a + unat b"
  by (simp add: unat_word_ariths)

lemma unat_add_16_le: "unat ((a :: 16 word) + b) \<le> unat a + unat b"
  by (simp add: unat_word_ariths)

lemma unat_ucast_8_16: "unat (ucast (w :: 8 word) :: 16 word) = unat w"
proof -
  have "unat w < 2 ^ 8" using unsigned_less [of w] by simp
  then show ?thesis by (simp add: unsigned_ucast_eq take_bit_nat_eq_self)
qed

lemma unat_ucast_8_32: "unat (ucast (w :: 8 word) :: 32 word) = unat w"
proof -
  have "unat w < 2 ^ 8" using unsigned_less [of w] by simp
  then show ?thesis by (simp add: unsigned_ucast_eq take_bit_nat_eq_self)
qed

lemma unat_add_8: "unat (a :: 8 word) + unat b < 256 \<Longrightarrow> unat (a + b) = unat a + unat b"
  by (simp add: unat_word_ariths)

lemma fragn_paysize_exact:
  assumes "unat (fs_outlen s) < unat (fe_buflen env)"
  shows "unat (fragn_paysize env s) =
           min (nat ((CONFIG_NET_6LOWPAN_FRAMELEN (fe_cfg env) - uint (fragn_hdrlen_of env)) AND 0xf8))
               (unat (fe_buflen env) - unat (fs_outlen s))"
proof -
  let ?x = "CONFIG_NET_6LOWPAN_FRAMELEN (fe_cfg env) - uint (fragn_hdrlen_of env)"
  let ?p = "word_of_int (?x AND 0xf8) :: 16 word"
  let ?rem = "fe_buflen env - ucast (fs_outlen s)"
  have p: "unat ?p = nat (?x AND 0xf8)" by (rule unat_paysize_word)
  have p248: "unat ?p \<le> 248" using and_f8_range(1,2)[of ?x] p by linarith
  have rem: "unat ?rem = unat (fe_buflen env) - unat (fs_outlen s)"
    using assms by (simp add: unat_sub_32 unat_ucast_16_32)
  show ?thesis
  proof (cases "?rem < ucast ?p")
    case True
    then have lt: "unat ?rem < unat ?p" by (simp add: word_less_nat_alt unat_ucast_16_32)
    then have "unat (ucast ?rem :: 16 word) = unat ?rem"
      using p248 by (intro unat_ucast_32_16) simp
    with True lt rem p show ?thesis by (simp add: fragn_paysize_def Let_def)
  next
    case False
    then have "unat ?p \<le> unat ?rem" by (simp add: word_less_nat_alt unat_ucast_16_32)
    with False rem p show ?thesis by (simp add: fragn_paysize_def Let_def)
  qed
qed

lemma fragn_paysize_le:
  assumes "uint (fragn_hdrlen_of env) \<le> CONFIG_NET_6LOWPAN_FRAMELEN (fe_cfg env)"
  shows "uint (fragn_paysize env s) \<le>
           CONFIG_NET_6LOWPAN_FRAMELEN (fe_cfg env) - uint (fragn_hdrlen_of env)"
proof -
  let ?x = "CONFIG_NET_6LOWPAN_FRAMELEN (fe_cfg env) - uint (fragn_hdrlen_of env)"
  let ?p = "word_of_int (?x AND 0xf8) :: 16 word"
  let ?rem = "fe_buflen env - ucast (fs_outlen s)"
  have x: "0 \<le> ?x" using assms by simp
  have p: "unat ?p = nat (?x AND 0xf8)" by (rule unat_paysize_word)
  have px: "int (unat ?p) \<le> ?x" using and_f8_le[OF x] and_f8_range(1)[of ?x] p by linarith
  show ?thesis
  proof (cases "?rem < ucast ?p")
    case True
    then have lt: "unat ?rem < unat ?p" by (simp add: word_less_nat_alt unat_ucast_16_32)
    have "unat (ucast ?rem :: 16 word) \<le> unat ?rem" by (rule unat_ucast_32_16_le)
    with lt px have "int (unat (ucast ?rem :: 16 word)) \<le> ?x" by linarith
    with True show ?thesis by (simp add: fragn_paysize_def Let_def)
  next
    case False
    with px show ?thesis by (simp add: fragn_paysize_def Let_def)
  qed
qed

lemma ff_mask: "(0xff :: 'a::len word) = mask 8" 
  by (simp add: mask_eq_exp_minus_1)

lemma hi_lo_16:
  "push_bit 8 (ucast (ucast (drop_bit 8 v AND 0xff) :: 8 word)) OR ucast (ucast (v AND 0xff) :: 8 word)
     = (v :: 16 word)"
  unfolding ff_mask by (rule bit_word_eqI) (auto simp add: bit_simps)

lemma GETINT16_PUTINT16: "GETINT16 (PUTINT16 p b i v) b i = v"
  by (simp add: GETINT16_def PUTINT16_def hi_lo_16)

lemma GETINT16_cong:
  "p (b + i) = q (b + i) \<Longrightarrow> p (b + i + 1) = q (b + i + 1) \<Longrightarrow> GETINT16 p b i = GETINT16 q b i"
  by (simp add: GETINT16_def)

lemma size_mask: "(0x07ff :: 16 word) = mask 11"
  by (simp add: mask_eq_exp_minus_1)

lemma low11_of_or: "(push_bit 11 (h :: 16 word) OR p) AND mask 11 = p AND mask 11"
  by (rule bit_word_eqI) (auto simp add: bit_simps)

lemma frag1_size_field: "(push_bit 8 (0xc0 :: 16 word) OR p) AND 0x07ff = p AND 0x07ff"
  using low11_of_or [of 24 p] by (simp add: size_mask)

lemma fragn_size_field: "(push_bit 8 (0xe0 :: 16 word) OR p) AND 0x07ff = p AND 0x07ff"
  using low11_of_or [of 28 p] by (simp add: size_mask)

section \<open>The fragments\<close>

lemma fragn_frame_data:
  "io_data (fragn_frame env s) =
     memcpy
       ((PUTINT16
          (PUTINT16
             (memcpy
                (memcpy (ext_iob_data (fe_ext env) (fs_pool s)) 0
                   (ext_mac_header (fe_ext env) (fe_ieee env) (i_panid (fe_ieee env))) 0
                   (nat (fe_framer_hdrlen env)))
                (nat (fe_framer_hdrlen env) + 5) (io_data (fs_head s))
                (nat (fe_framer_hdrlen env) + 4)
                (unat (word_of_int (uint (fe_frag1_hdrlen env) - fe_framer_hdrlen env) :: size_t)))
             (nat (fe_framer_hdrlen env)) 0 (push_bit 8 0xe0 OR fe_pktlen env))
          (nat (fe_framer_hdrlen env)) 2 (i_dgramtag (fe_ieee env)))
        (nat (fe_framer_hdrlen env) + 4 := ucast (drop_bit 3 (fs_outlen s))))
       (unat (fragn_hdrlen_of env)) (fe_buf env) (unat (fs_outlen s))
       (unat (fragn_paysize env s))"
  by (simp add: fragn_frame_def fragn_body_def fragn_paysize_def fragn_hdrlen_of_def
      iob_alloc_def sixlowpan_framecreate_def Let_def)

lemma fragn_frame_fields:
  assumes "nat (fe_framer_hdrlen env) + 5 \<le> unat (fragn_hdrlen_of env)"
  shows "frag_size_field (nat (fe_framer_hdrlen env)) (fragn_frame env s) = fe_pktlen env AND 0x07ff"
    and "frag_tag (nat (fe_framer_hdrlen env)) (fragn_frame env s) = i_dgramtag (fe_ieee env)"
    and "frag_offset (nat (fe_framer_hdrlen env)) (fragn_frame env s) = ucast (drop_bit 3 (fs_outlen s))"
proof -
  let ?m = "nat (fe_framer_hdrlen env)"
  let ?d = "io_data (fragn_frame env s)"
  let ?v = "push_bit 8 0xe0 OR fe_pktlen env"
  let ?t = "i_dgramtag (fe_ieee env)"
  from assms have b0: "?d (?m + 0) = ucast (drop_bit 8 ?v AND 0xff)"
    and b1: "?d (?m + 0 + 1) = ucast (?v AND 0xff)"
    and b2: "?d (?m + 2) = ucast (drop_bit 8 ?t AND 0xff)"
    and b3: "?d (?m + 2 + 1) = ucast (?t AND 0xff)"
    and b4: "?d (?m + 4) = ucast (drop_bit 3 (fs_outlen s))"
    by (simp_all add: fragn_frame_data memcpy_def PUTINT16_def)
  have "GETINT16 ?d ?m 0 = ?v"
    by (simp only: GETINT16_def b0 b1 hi_lo_16)
  then show "frag_size_field ?m (fragn_frame env s) = fe_pktlen env AND 0x07ff"
    by (simp only: frag_size_field_def fragn_size_field)
  show "frag_tag ?m (fragn_frame env s) = ?t"
    by (simp only: frag_tag_def GETINT16_def b2 b3 hi_lo_16)
  from b4 show "frag_offset ?m (fragn_frame env s) = ucast (drop_bit 3 (fs_outlen s))"
    by (simp add: frag_offset_def)
qed

lemma frag1_results:
  assumes "frag1 cfg ext ieee buf buflen dest_panid m g iob pool = (g', env, s0)"
  shows "g' = g\<lparr>g_frame_hdrlen := g_frame_hdrlen g + 4\<rparr>"
    and "fe_cfg env = cfg" and "fe_ext env = ext" and "fe_ieee env = ieee"
    and "fe_framer_hdrlen env = m"
    and "fe_frag1_hdrlen env = ucast (g_frame_hdrlen g + 4)"
    and "fe_pktlen env = ucast (buflen + ucast (g_uncomp_hdrlen g))"
    and "fe_buf env = buf" and "fe_buflen env = buflen"
    and "fs_rest s0 = []" and "fs_pool s0 = pool"
    and "fs_outlen s0 =
           word_of_int ((CONFIG_NET_6LOWPAN_FRAMELEN cfg - uint (g_frame_hdrlen g + 4)) AND NOT 7)"
    and "io_len (fs_head s0) = fs_outlen s0 + ucast (g_frame_hdrlen g + 4)"
    and "io_pktlen (fs_head s0) = io_len (fs_head s0)"
  using assms by (auto simp add: frag1_def Let_def)

lemma frag1_fields:
  assumes "frag1 cfg ext ieee buf buflen dest_panid m g iob pool = (g', env, s0)"
    and "nat m + 4 \<le> unat (g_frame_hdrlen g + 4)"
  shows "frag_size_field (nat m) (fs_head s0) = fe_pktlen env AND 0x07ff"
    and "frag_tag (nat m) (fs_head s0) = i_dgramtag ieee"
proof -
  let ?d = "io_data (fs_head s0)"
  let ?m = "nat m"
  let ?v = "push_bit 8 0xc0 OR fe_pktlen env"
  let ?t = "i_dgramtag ieee"
  from assms have b0: "?d (?m + 0) = ucast (drop_bit 8 ?v AND 0xff)"
    and b1: "?d (?m + 0 + 1) = ucast (?v AND 0xff)"
    and b2: "?d (?m + 2) = ucast (drop_bit 8 ?t AND 0xff)"
    and b3: "?d (?m + 2 + 1) = ucast (?t AND 0xff)"
    by (auto simp add: frag1_def Let_def memcpy_def PUTINT16_def)
  have "GETINT16 ?d ?m 0 = ?v"
    by (simp only: GETINT16_def b0 b1 hi_lo_16)
  then show "frag_size_field ?m (fs_head s0) = fe_pktlen env AND 0x07ff"
    by (simp only: frag_size_field_def frag1_size_field)
  show "frag_tag ?m (fs_head s0) = ?t"
    by (simp only: frag_tag_def GETINT16_def b2 b3 hi_lo_16)
qed

lemma queue_frames_fragmented:
  assumes "0 \<le> framer_hdrlen_of ext ieee" and "CONFIG_NET_6LOWPAN_FRAG cfg"
    and "headers_of cfg ext ieee pool destip buflen destmac = (g, iob)"
    and "needs_fragmentation cfg g buflen"
  shows "sixlowpan_queue_frames cfg ext ieee pool destip buf buflen destmac =
     (case frag1 cfg ext ieee buf buflen (dest_panid_of ext ieee) (framer_hdrlen_of ext ieee)
             g iob (pool + 1) of
        (g', env, s0) \<Rightarrow>
          (case fragn_loop env s0 of
             None \<Rightarrow> None
           | Some s \<Rightarrow>
               Some (OK,
                     ieee\<lparr>i_framelist := fs_head s # fs_rest s,
                          i_dgramtag := i_dgramtag ieee + 1\<rparr>,
                     g', fs_pool s)))"
  using assms
  by (simp add: sixlowpan_queue_frames_def framer_hdrlen_of_def headers_of_def
      iob_alloc_def Let_def split: prod.splits)

lemma queue_frames_single:
  assumes "0 \<le> framer_hdrlen_of ext ieee"
    and "headers_of cfg ext ieee pool destip buflen destmac = (g, iob)"
    and "\<not> needs_fragmentation cfg g buflen"
  shows "sixlowpan_queue_frames cfg ext ieee pool destip buf buflen destmac =
     Some (OK,
           ieee\<lparr>i_framelist :=
                  [single_frame ext ieee buf buflen (dest_panid_of ext ieee)
                     (framer_hdrlen_of ext ieee) g iob]\<rparr>,
           g, pool + 1)"
  using assms
  by (simp add: sixlowpan_queue_frames_def framer_hdrlen_of_def headers_of_def
      iob_alloc_def Let_def split: prod.splits)

lemma queue_frames_OK:
  assumes "sixlowpan_queue_frames cfg ext ieee pool destip buf buflen destmac =
             Some (OK, ieee', g', pool')"
  shows "0 \<le> framer_hdrlen_of ext ieee"
    and "needs_fragmentation cfg (fst (headers_of cfg ext ieee pool destip buflen destmac)) buflen
           \<Longrightarrow> CONFIG_NET_6LOWPAN_FRAG cfg"
  using assms
  by (auto simp add: sixlowpan_queue_frames_def framer_hdrlen_of_def headers_of_def
      iob_alloc_def Let_def split: prod.splits option.splits if_splits)


lemma uint_add_16_le: "uint ((a :: 16 word) + b) \<le> uint a + uint b"
proof -
  have "uint (a + b) = (uint a + uint b) mod 2 ^ 16"
    by (simp only: uint_word_ariths len_bit0 len_num1 mult_2 One_nat_def) simp
  also have "\<dots> \<le> uint a + uint b"
    by (rule zmod_le_nonneg_dividend) simp
  finally show ?thesis .
qed

lemma fragn_loop_head:
  assumes run: "fragn_loop env s0 = Some s"
  shows "io_data (fs_head s) = io_data (fs_head s0) \<and> io_len (fs_head s) = io_len (fs_head s0)"
proof -
  let ?I = "\<lambda>t::fragn_state. io_data (fs_head t) = io_data (fs_head s0) \<and> io_len (fs_head t) = io_len (fs_head s0)"
  have "?I s \<and> \<not> ucast (fs_outlen s) < fe_buflen env"
  proof (rule fragn_loop_partial [OF run, where I = ?I])
    show "?I s0" by simp
  next
    fix t assume "?I t"
    then show "?I (fragn_body env t)" by (simp only: fragn_body_head)
  qed
  then show ?thesis by (rule conjunct1)
qed

lemma fragn_loop_len:
  assumes run: "fragn_loop env s0 = Some s"
    and room: "uint (fragn_hdrlen_of env) \<le> CONFIG_NET_6LOWPAN_FRAMELEN (fe_cfg env)"
    and init: "fs_rest s0 = []"
  shows "\<forall>f\<in>set (fs_rest s). uint (io_len f) \<le> CONFIG_NET_6LOWPAN_FRAMELEN (fe_cfg env)"
proof -
  let ?I = "\<lambda>s::fragn_state. \<forall>f\<in>set (fs_rest s). uint (io_len f) \<le> CONFIG_NET_6LOWPAN_FRAMELEN (fe_cfg env)"
  have "?I s \<and> \<not> ucast (fs_outlen s) < fe_buflen env"
  proof (rule fragn_loop_partial [OF run, where I = ?I])
    show "?I s0" using init by simp
  next
    fix t assume t: "?I t"
    have "uint (io_len (fragn_frame env t)) \<le> uint (fragn_paysize env t) + uint (fragn_hdrlen_of env)"
      by (simp only: fragn_frame_len uint_add_16_le)
    also have "\<dots> \<le> CONFIG_NET_6LOWPAN_FRAMELEN (fe_cfg env)"
      using fragn_paysize_le [OF room, of t] by linarith
    finally have "uint (io_len (fragn_frame env t)) \<le> CONFIG_NET_6LOWPAN_FRAMELEN (fe_cfg env)" .
    with t show "?I (fragn_body env t)" by (simp add: fragn_body_rest)
  qed
  then show ?thesis by (rule conjunct1)
qed

lemma fragn_loop_fields:
  assumes run: "fragn_loop env s0 = Some s"
    and room: "nat (fe_framer_hdrlen env) + 5 \<le> unat (fragn_hdrlen_of env)"
    and init: "fs_rest s0 = []"
  shows "\<forall>f\<in>set (fs_rest s).
           frag_size_field (nat (fe_framer_hdrlen env)) f = fe_pktlen env AND 0x07ff \<and>
           frag_tag (nat (fe_framer_hdrlen env)) f = i_dgramtag (fe_ieee env)"
proof -
  let ?I = "\<lambda>s::fragn_state. \<forall>f\<in>set (fs_rest s).
           frag_size_field (nat (fe_framer_hdrlen env)) f = fe_pktlen env AND 0x07ff \<and>
           frag_tag (nat (fe_framer_hdrlen env)) f = i_dgramtag (fe_ieee env)"
  have "?I s \<and> \<not> ucast (fs_outlen s) < fe_buflen env"
  proof (rule fragn_loop_partial [OF run, where I = ?I])
    show "?I s0" using init by simp
  next
    fix t assume t: "?I t"
    with fragn_frame_fields(1,2) [OF room, of t] show "?I (fragn_body env t)"
      by (simp add: fragn_body_rest)
  qed
  then show ?thesis by (rule conjunct1)
qed

lemma uint_word_of_int_le: "0 \<le> k \<Longrightarrow> uint (word_of_int k :: 'a::len word) \<le> k"
  by (simp add: uint_word_of_int_eq take_bit_eq_mod zmod_le_nonneg_dividend)

lemma uint_ucast_8_16: "uint (ucast (w :: 8 word) :: 16 word) = uint w"
  using unat_ucast_8_16 [of w] by (simp only: uint_nat)

lemma uint_ucast_8_32: "uint (ucast (w :: 8 word) :: 32 word) = uint w"
  using unat_ucast_8_32 [of w] by (simp only: uint_nat)

lemma uint_ucast_32_16_le: "uint (ucast (a :: 32 word) :: 16 word) \<le> uint a"
  using unat_ucast_32_16_le [of a] by (simp only: uint_nat)

lemma uint_add_8_le: "uint ((a :: 8 word) + b) \<le> uint a + uint b"
proof -
  have "uint (a + b) = (uint a + uint b) mod 2 ^ 8"
    by (simp only: uint_word_ariths len_bit0 len_num1 mult_2 One_nat_def) simp
  also have "\<dots> \<le> uint a + uint b"
    by (rule zmod_le_nonneg_dividend) simp
  finally show ?thesis .
qed

lemma uint_add_32_le: "uint ((a :: 32 word) + b) \<le> uint a + uint b"
proof -
  have "uint (a + b) = (uint a + uint b) mod 2 ^ 32"
    by (simp only: uint_word_ariths len_bit0 len_num1 mult_2 One_nat_def) simp
  also have "\<dots> \<le> uint a + uint b"
    by (rule zmod_le_nonneg_dividend) simp
  finally show ?thesis .
qed

lemma frag1_len_le:
  assumes f1: "frag1 cfg ext ieee buf buflen dest_panid m g iob pool = (g', env, s0)"
    and room: "uint (g_frame_hdrlen g) + 4 \<le> CONFIG_NET_6LOWPAN_FRAMELEN cfg"
  shows "uint (io_len (fs_head s0)) \<le> CONFIG_NET_6LOWPAN_FRAMELEN cfg"
proof -
  let ?F = "CONFIG_NET_6LOWPAN_FRAMELEN cfg"
  let ?h = "uint (g_frame_hdrlen g + 4)"
  have h: "?h \<le> uint (g_frame_hdrlen g) + 4"
    using uint_add_8_le [of "g_frame_hdrlen g" 4] by simp
  then have y: "0 \<le> ?F - ?h" using room by linarith
  let ?q = "(?F - ?h) AND NOT 7"
  have q: "?q = (?F - ?h) - (?F - ?h) mod 8" by (rule int_and_not_7)
  have q0: "0 \<le> ?q" and qy: "?q \<le> ?F - ?h"
    using y q by (simp_all add: zmod_le_nonneg_dividend)
  have "uint (io_len (fs_head s0)) \<le> uint (word_of_int ?q :: 16 word) + uint (ucast (g_frame_hdrlen g + 4) :: 16 word)"
    by (simp only: frag1_results(12,13) [OF f1] uint_add_16_le)
  also have "\<dots> \<le> ?q + ?h"
    using uint_word_of_int_le [OF q0, where 'a = 16] by (simp only: uint_ucast_8_16)
  also have "\<dots> \<le> ?F" using qy by linarith
  finally show ?thesis .
qed

lemma single_frame_len_le:
  assumes fit: "\<not> needs_fragmentation cfg g buflen"
    and room: "uint (g_frame_hdrlen g) \<le> CONFIG_NET_6LOWPAN_FRAMELEN cfg"
  shows "uint (io_len (single_frame ext ieee buf buflen dest_panid m g iob))
           \<le> CONFIG_NET_6LOWPAN_FRAMELEN cfg"
proof -
  let ?F = "CONFIG_NET_6LOWPAN_FRAMELEN cfg"
  let ?y = "?F - uint (g_frame_hdrlen g)"
  have y: "0 \<le> ?y" using room by simp
  from fit have "buflen \<le> (word_of_int ?y :: size_t)"
    by (simp add: needs_fragmentation_def not_less)
  then have "uint buflen \<le> uint (word_of_int ?y :: size_t)"
    by (simp only: word_le_def)
  also have "\<dots> \<le> ?y" by (rule uint_word_of_int_le [OF y])
  finally have b: "uint buflen + uint (g_frame_hdrlen g) \<le> ?F" by simp
  have "io_len (single_frame ext ieee buf buflen dest_panid m g iob)
          = ucast (buflen + ucast (g_frame_hdrlen g))"
    by (simp add: single_frame_def Let_def)
  then have "uint (io_len (single_frame ext ieee buf buflen dest_panid m g iob))
          \<le> uint (buflen + ucast (g_frame_hdrlen g))"
    by (simp only: uint_ucast_32_16_le)
  also have "\<dots> \<le> uint buflen + uint (g_frame_hdrlen g)"
    using uint_add_32_le [of buflen "ucast (g_frame_hdrlen g)"] by (simp only: uint_ucast_8_32)
  also note b
  finally show ?thesis .
qed

lemma fragn_hdrlen_le:
  assumes f1: "frag1 cfg ext ieee buf buflen dest_panid m g iob pool = (g', env, s0)"
  shows "uint (fragn_hdrlen_of env) \<le> uint (g_frame_hdrlen g) + 5"
proof -
  have "uint (fragn_hdrlen_of env) \<le> uint (ucast (g_frame_hdrlen g + 4) :: 16 word) + 1"
    using uint_add_16_le [of "ucast (g_frame_hdrlen g + 4)" 1]
    by (simp add: fragn_hdrlen_of_eq frag1_results(6) [OF f1])
  also have "\<dots> \<le> uint (g_frame_hdrlen g) + 4 + 1"
    using uint_add_8_le [of "g_frame_hdrlen g" 4] by (simp only: uint_ucast_8_16) simp
  finally show ?thesis by simp
qed

lemma unat_plus4:
  assumes "uint (w :: 8 word) + 4 < 256"
  shows "unat (w + 4) = unat w + 4"
proof -
  have "uint w = int (unat w)" by (rule uint_nat)
  with assms have "unat w + 4 < 256" by linarith
  moreover have "unat (4 :: 8 word) = 4" by simp
  ultimately have "unat w + unat (4 :: 8 word) < 256" by (simp only:)
  then have "unat (w + 4) = unat w + unat (4 :: 8 word)" by (rule unat_add_8)
  then show ?thesis by simp
qed

lemma fragn_hdrlen_exact:
  assumes f1: "frag1 cfg ext ieee buf buflen dest_panid m g iob pool = (g', env, s0)"
    and nowrap: "uint (g_frame_hdrlen g) + 4 < 256"
  shows "unat (fe_frag1_hdrlen env) = unat (g_frame_hdrlen g) + 4"
    and "unat (fragn_hdrlen_of env) = unat (g_frame_hdrlen g) + 5"
proof -
  show a: "unat (fe_frag1_hdrlen env) = unat (g_frame_hdrlen g) + 4"
    by (simp add: frag1_results(6) [OF f1] unat_ucast_8_16 unat_plus4 [OF nowrap])
  have "uint (g_frame_hdrlen g) = int (unat (g_frame_hdrlen g))" by (rule uint_nat)
  with a nowrap have "unat (fe_frag1_hdrlen env) + 1 < 65536" by linarith
  moreover have "unat (1 :: 16 word) = 1" by simp
  ultimately have "unat (fe_frag1_hdrlen env) + unat (1 :: 16 word) < 65536" by (simp only:)
  then have "unat (fe_frag1_hdrlen env + 1) = unat (fe_frag1_hdrlen env) + unat (1 :: 16 word)"
    by (rule unat_add_16)
  with a show "unat (fragn_hdrlen_of env) = unat (g_frame_hdrlen g) + 5"
    by (simp add: fragn_hdrlen_of_eq)
qed

lemma frag_fields_run:
  assumes f1: "frag1 cfg ext ieee buf buflen dest_panid m g iob pool = (g1, env, s0)"
    and run: "fragn_loop env s0 = Some s"
    and m0: "0 \<le> m" and mac: "m \<le> uint (g_frame_hdrlen g)"
    and nowrap: "uint (g_frame_hdrlen g) + 4 < 256"
  shows "\<forall>f\<in>set (fs_head s # fs_rest s).
           frag_size_field (nat m) f = ucast (buflen + ucast (g_uncomp_hdrlen g)) AND 0x07ff \<and>
           frag_tag (nat m) f = i_dgramtag ieee"
proof -
  note e = frag1_results(4,5,7) [OF f1]
  have "uint (g_frame_hdrlen g) = int (unat (g_frame_hdrlen g))" by (rule uint_nat)
  with mac m0 have mle: "nat m \<le> unat (g_frame_hdrlen g)" by linarith
  have "nat m + 4 \<le> unat (g_frame_hdrlen g + 4)"
    using mle unat_plus4 [OF nowrap] by simp
  note h1 = frag1_fields [OF f1 this]
  have "nat (fe_framer_hdrlen env) + 5 \<le> unat (fragn_hdrlen_of env)"
    using mle fragn_hdrlen_exact(2) [OF f1 nowrap] e by simp
  note hn = fragn_loop_fields [OF run this frag1_results(10) [OF f1]]
  from fragn_loop_head [OF run] have d: "io_data (fs_head s) = io_data (fs_head s0)" by simp
  have "frag_size_field (nat m) (fs_head s) = fe_pktlen env AND 0x07ff"
    and "frag_tag (nat m) (fs_head s) = i_dgramtag ieee"
    using h1 d by (simp_all add: frag_size_field_def frag_tag_def)
  with hn e show ?thesis by simp
qed

lemma offsets_from_append:
  "offsets_from m hl acc (fs @ [f]) \<longleftrightarrow>
     offsets_from m hl acc fs \<and>
     unat (frag_offset m f) = (acc + sum_list (map (payload_len hl) fs)) div 8"
  by (induction fs arbitrary: acc) (auto simp add: add.assoc)

lemma unat_offset_byte:
  assumes "unat (w :: 16 word) < 2048"
  shows "unat (ucast (drop_bit 3 w) :: 8 word) = unat w div 8"
proof -
  have "unat (drop_bit 3 w) = unat w div 8"
    by (simp add: drop_bit_eq_div unat_div)
  moreover from assms have "unat w div 8 < 256" by simp
  ultimately show ?thesis by (simp add: unsigned_ucast_eq take_bit_nat_eq_self)
qed

lemma and_f8_nat_dvd: "8 dvd nat ((x::int) AND 0xf8)"
  using and_f8_range(1,3) [of x]
  by (metis int_dvd_int_iff int_nat_eq of_nat_numeral)

lemma frag_inv_step:
  assumes hn: "unat (fragn_hdrlen_of env) = Hn"
    and p: "nat ((CONFIG_NET_6LOWPAN_FRAMELEN (fe_cfg env) - uint (fragn_hdrlen_of env)) AND 0xf8) = p"
    and B: "unat (fe_buflen env) = B" and B2: "B < 2048"
    and m: "nat (fe_framer_hdrlen env) = m" and mH: "m + 5 \<le> Hn" and H: "Hn < 1000"
    and inv: "frag_inv m H Hn B s"
    and cond: "ucast (fs_outlen s) < fe_buflen env"
  shows "frag_inv m H Hn B (fragn_body env s)"
    and "unat (fs_outlen (fragn_body env s)) = unat (fs_outlen s) + min p (B - unat (fs_outlen s))"
proof -
  let ?pay = "unat (fragn_paysize env s)"
  let ?f = "fragn_frame env s"
  from cond B have lt: "unat (fs_outlen s) < B"
    by (simp add: word_less_nat_alt unat_ucast_16_32)
  have pay: "?pay = min p (B - unat (fs_outlen s))"
    using fragn_paysize_exact [of s env] lt B p by simp
  have p248: "p \<le> 248"
    using and_f8_range(1,2) [of "CONFIG_NET_6LOWPAN_FRAMELEN (fe_cfg env) - uint (fragn_hdrlen_of env)"] p
    by linarith
  have p8: "8 dvd p" using and_f8_nat_dvd p by blast
  from pay have payle: "?pay \<le> B - unat (fs_outlen s)" by simp
  have out: "unat (fs_outlen (fragn_body env s)) = unat (fs_outlen s) + ?pay"
    unfolding fragn_body_outlen using payle lt B2 by (intro unat_add_16) linarith
  have len: "unat (io_len ?f) = ?pay + Hn"
    unfolding fragn_frame_len hn [symmetric] using pay p248 hn H
    by (intro unat_add_16) linarith
  then have pl: "payload_len Hn ?f = ?pay" by (simp add: payload_len_def)
  have "m + 5 \<le> unat (fragn_hdrlen_of env)" using mH hn by simp
  then have "nat (fe_framer_hdrlen env) + 5 \<le> unat (fragn_hdrlen_of env)" using m by simp
  from fragn_frame_fields(3) [OF this, of s] m
  have "frag_offset m ?f = ucast (drop_bit 3 (fs_outlen s))" by simp
  moreover have "unat (fs_outlen s) < 2048" using lt B2 by simp
  ultimately have off: "unat (frag_offset m ?f) = unat (fs_outlen s) div 8"
    by (simp add: unat_offset_byte)
  have pay8: "8 dvd ?pay" if "unat (fs_outlen s) + ?pay < B"
  proof -
    from that pay have "?pay = p" by (simp add: min_def split: if_splits)
    with p8 show ?thesis by simp
  qed
  have hd: "payload_len H (fs_head (fragn_body env s)) = payload_len H (fs_head s)"
    by (simp add: payload_len_def fragn_body_head)
  from inv lt have all8: "\<forall>f\<in>set (fs_rest s). 8 dvd payload_len Hn f"
    by (simp add: frag_inv_def)
  from inv have sum: "payload_len H (fs_head s) + sum_list (map (payload_len Hn) (fs_rest s))
       = unat (fs_outlen s)"
    and h8: "8 dvd payload_len H (fs_head s)"
    and offs: "offsets_from m Hn (payload_len H (fs_head s)) (fs_rest s)"
    by (simp_all add: frag_inv_def)
  show "frag_inv m H Hn B (fragn_body env s)"
    unfolding frag_inv_def hd fragn_body_rest out
    using payle lt sum h8 offs all8 pay8 off pl
    by (simp add: offsets_from_append)
  from out pay show "unat (fs_outlen (fragn_body env s))
      = unat (fs_outlen s) + min p (B - unat (fs_outlen s))"
    by simp
qed

lemma unat_word_of_int_32:
  "0 \<le> k \<Longrightarrow> k < 4294967296 \<Longrightarrow> unat (word_of_int k :: 32 word) = nat k"
  by (simp add: unat_eq_nat_uint uint_word_of_int_eq take_bit_int_eq_self)

lemma and_not_7_range:
  assumes "0 \<le> (y::int)"
  shows "0 \<le> (y AND NOT 7)" and "(y AND NOT 7) \<le> y" and "8 dvd (y AND NOT 7)"
proof -
  have e: "y AND NOT 7 = 8 * (y div 8)"
    by (simp only: int_and_not_7 minus_mod_eq_mult_div)
  from assms have "0 \<le> y div 8" by (simp add: pos_imp_zdiv_nonneg_iff)
  then show "0 \<le> (y AND NOT 7)" unfolding e by simp
  have "0 \<le> y mod 8" by simp
  then show "(y AND NOT 7) \<le> y" unfolding int_and_not_7 by linarith
  show "8 dvd (y AND NOT 7)" unfolding e by simp
qed

lemma and_f8_pos:
  assumes "8 \<le> (x::int)" and "x < 256"
  shows "8 \<le> (x AND 0xf8)"
proof -
  from assms have "x AND 0xf8 = x - x mod 8" by (simp add: and_f8_exact)
  also have "\<dots> = 8 * (x div 8)" by (simp add: minus_mod_eq_mult_div)
  finally have e: "x AND 0xf8 = 8 * (x div 8)" .
  from assms(1) have "1 \<le> x div 8" by (simp add: pos_le_divide_eq zle_diff1_eq) 
  with e show ?thesis by simp
qed

lemma frag_total:
  assumes f1: "frag1 cfg ext ieee buf buflen dest_panid m g iob pool = (g1, env, s0)"
    and F: "CONFIG_NET_6LOWPAN_FRAMELEN cfg \<le> 255"
    and room: "uint (g_frame_hdrlen g) + 13 \<le> CONFIG_NET_6LOWPAN_FRAMELEN cfg"
    and need: "needs_fragmentation cfg g buflen"
    and m0: "0 \<le> m" and mac: "m \<le> uint (g_frame_hdrlen g)"
    and small: "unat buflen < 2048"
  shows "\<exists>s. fragn_loop env s0 = Some s \<and>
             frag_inv (nat m) (unat (g_frame_hdrlen g) + 4) (unat (g_frame_hdrlen g) + 5) (unat buflen) s \<and>
             unat (fs_outlen s) = unat buflen"
proof -
  let ?F = "CONFIG_NET_6LOWPAN_FRAMELEN cfg"
  let ?G = "unat (g_frame_hdrlen g)"
  let ?H = "?G + 4"
  let ?B = "unat buflen"
  have G: "uint (g_frame_hdrlen g) = int ?G" by (rule uint_nat)
  from room F G have nowrap: "uint (g_frame_hdrlen g) + 4 < 256" by linarith
  note e = frag1_results [OF f1]
  note h = fragn_hdrlen_exact [OF f1 nowrap]
  have hn: "uint (fragn_hdrlen_of env) = int ?G + 5"
    using h(2) by (simp only: uint_nat)
  let ?x = "?F - uint (fragn_hdrlen_of env)"
  from room F G hn have x: "8 \<le> ?x" "?x < 256" by linarith+
  have p8: "8 \<le> (?x AND 0xf8)" by (rule and_f8_pos [OF x])
  define p where "p = nat (?x AND 0xf8)"
  have pp: "nat ((CONFIG_NET_6LOWPAN_FRAMELEN (fe_cfg env) - uint (fragn_hdrlen_of env)) AND 0xf8) = p"
    by (simp add: p_def e(2))
  have p0: "0 < p" using p8 by (simp add: p_def)
  \<comment> \<open>the first fragment\<close>
  have h4: "uint (g_frame_hdrlen g + 4) = int ?H"
    using unat_plus4 [OF nowrap] by (simp only: uint_nat)
  let ?y = "?F - uint (g_frame_hdrlen g + 4)"
  from room G h4 have y: "0 \<le> ?y" by linarith
  note q = and_not_7_range [OF y]
  have "?y AND NOT 7 < 65536" using q(2) F h4 by linarith
  with q(1) have o0: "unat (fs_outlen s0) = nat (?y AND NOT 7)"
    by (simp only: e(12) unat_word_of_int_small)
  from F room G have "0 \<le> ?F - uint (g_frame_hdrlen g)" "?F - uint (g_frame_hdrlen g) < 4294967296"
    by linarith+
  then have "unat (word_of_int (?F - uint (g_frame_hdrlen g)) :: 32 word) = nat (?F - uint (g_frame_hdrlen g))"
    by (rule unat_word_of_int_32)
  with need have nb: "nat (?F - uint (g_frame_hdrlen g)) < ?B"
    by (simp add: needs_fragmentation_def word_less_nat_alt)
  have oB: "unat (fs_outlen s0) \<le> ?B" using o0 q(2) nb h4 G by linarith
  have "unat (fs_outlen s0) + unat (ucast (g_frame_hdrlen g + 4) :: 16 word) < 65536"
    using oB small by (simp add: unat_ucast_8_16 unat_plus4 [OF nowrap]) (use nowrap G in linarith)
  then have l0: "unat (io_len (fs_head s0)) = unat (fs_outlen s0) + ?H"
    by (simp only: e(13) unat_add_16 unat_ucast_8_16 unat_plus4 [OF nowrap])
  then have pl0: "payload_len ?H (fs_head s0) = unat (fs_outlen s0)"
    by (simp add: payload_len_def)
  have d0: "8 dvd unat (fs_outlen s0)"
    using q(1,3) o0 by (metis int_dvd_int_iff int_nat_eq of_nat_numeral)
  have init: "frag_inv (nat m) ?H (?G + 5) ?B s0"
    using oB pl0 d0 by (simp add: frag_inv_def e(10))
  \<comment> \<open>the loop\<close>
  have mH: "nat m + 5 \<le> ?G + 5" using mac m0 G by linarith
  have Hs: "?G + 5 < 1000" using nowrap G by linarith
  have step: "frag_inv (nat m) ?H (?G + 5) ?B (fragn_body env t) \<and>
              ?B - unat (fs_outlen (fragn_body env t)) < ?B - unat (fs_outlen t)"
    if i: "frag_inv (nat m) ?H (?G + 5) ?B t" and c: "ucast (fs_outlen t) < fe_buflen env" for t
  proof -
    have B: "unat (fe_buflen env) = ?B" by (simp only: e(9))
    have mm: "nat (fe_framer_hdrlen env) = nat m" by (simp only: e(5))
    note st = frag_inv_step [OF h(2) pp B small mm mH Hs i c]
    from c have lt: "unat (fs_outlen t) < ?B"
      by (simp add: e(9) word_less_nat_alt unat_ucast_16_32)
    have "0 < min p (?B - unat (fs_outlen t))" using p0 lt by simp
    with st(2) lt have "?B - unat (fs_outlen (fragn_body env t)) < ?B - unat (fs_outlen t)"
      by linarith
    with st(1) show ?thesis by (rule conjI)
  qed
  from fragn_loop_total [of "frag_inv (nat m) ?H (?G + 5) ?B" s0 env "\<lambda>t. ?B - unat (fs_outlen t)", OF init step]
  obtain s where run: "fragn_loop env s0 = Some s" and inv: "frag_inv (nat m) ?H (?G + 5) ?B s"
    and stop: "\<not> ucast (fs_outlen s) < fe_buflen env"
    by blast
  from stop have "?B \<le> unat (fs_outlen s)"
    by (simp add: e(9) word_less_nat_alt unat_ucast_16_32)
  moreover from inv have "unat (fs_outlen s) \<le> ?B" by (simp add: frag_inv_def)
  ultimately have "unat (fs_outlen s) = ?B" by simp
  with run inv show ?thesis by blast
qed

lemma unat_add_32:
  "unat (a :: 32 word) + unat b < 4294967296 \<Longrightarrow> unat (a + b) = unat a + unat b"
  by (simp add: unat_word_ariths)

lemma unat_and_7ff:
  assumes "unat (w :: 16 word) < 2048"
  shows "unat (w AND 0x07ff) = unat w"
proof -
  have "w AND 0x07ff = take_bit 11 w" by (simp only: size_mask take_bit_eq_mask)
  then have "unat (w AND 0x07ff) = take_bit 11 (unat w)" by (simp only: unsigned_take_bit_eq)
  also have "\<dots> = unat w" using assms by (simp add: take_bit_nat_eq_self)
  finally show ?thesis .
qed

lemma size_field_value:
  assumes "unat (buflen :: 32 word) + unat (u :: 8 word) \<le> 2047"
  shows "unat ((ucast (buflen + ucast u) :: 16 word) AND 0x07ff) = unat buflen + unat u"
proof -
  have "unat buflen + unat (ucast u :: 32 word) < 4294967296"
    using assms by (simp add: unat_ucast_8_32)
  then have "unat (buflen + ucast u) = unat buflen + unat u"
    by (simp only: unat_add_32 unat_ucast_8_32)
  moreover from this assms have "unat (ucast (buflen + ucast u) :: 16 word) = unat (buflen + ucast u)"
    by (intro unat_ucast_32_16) simp
  ultimately have "unat (ucast (buflen + ucast u) :: 16 word) = unat buflen + unat u" by simp
  with assms unat_and_7ff [of "ucast (buflen + ucast u)"] show ?thesis by simp
qed

text \<open>
  The test of line 338 is true when the headers leave room in the frame and the datagram
  is longer than that room.
\<close>

lemma needs_fragmentation_int:
  assumes fits: "uint (g_frame_hdrlen g) \<le> CONFIG_NET_6LOWPAN_FRAMELEN cfg"
    and big: "CONFIG_NET_6LOWPAN_FRAMELEN cfg - uint (g_frame_hdrlen g) < uint buflen"
  shows "needs_fragmentation cfg g buflen"
proof -
  let ?y = "CONFIG_NET_6LOWPAN_FRAMELEN cfg - uint (g_frame_hdrlen g)"
  from fits have y: "0 \<le> ?y" by simp
  have "uint (word_of_int ?y :: size_t) \<le> ?y" by (rule uint_word_of_int_le [OF y])
  with big have "uint (word_of_int ?y :: size_t) < uint buflen" by linarith
  then show ?thesis by (simp only: needs_fragmentation_def word_less_def)
qed

lemma uint_word_of_int_32:
  "0 \<le> k \<Longrightarrow> k < 4294967296 \<Longrightarrow> uint (word_of_int k :: 32 word) = k"
  by (simp add: uint_word_of_int_eq take_bit_int_eq_self)

lemma uint_word_of_int_16: "uint (word_of_int k :: 16 word) = k mod 65536"
  by (simp add: uint_word_of_int_eq take_bit_eq_mod)

lemma dvd8_nat: "8 dvd int n \<Longrightarrow> 8 dvd n"
  by (metis int_dvd_int_iff of_nat_numeral)

lemma frag1_outlen_dvd:
  assumes f1: "frag1 cfg ext ieee buf buflen dest_panid m g iob pool = (g1, env, s0)"
  shows "8 dvd unat (fs_outlen s0)"
proof -
  let ?y = "CONFIG_NET_6LOWPAN_FRAMELEN cfg - uint (g_frame_hdrlen g + 4)"
  have e: "?y AND NOT 7 = 8 * (?y div 8)"
    by (simp only: int_and_not_7 minus_mod_eq_mult_div)
  have "fs_outlen s0 = word_of_int (?y AND NOT 7)" by (rule frag1_results(12) [OF f1])
  then have "fs_outlen s0 = word_of_int (8 * (?y div 8))" unfolding e .
  then have "uint (fs_outlen s0) = (8 * (?y div 8)) mod 65536"
    by (simp only: uint_word_of_int_16)
  moreover have "(8::int) dvd (8 * (?y div 8)) mod 65536"
    by (rule dvd_mod) simp_all
  ultimately have "8 dvd uint (fs_outlen s0)" by (simp only:)
  then have "8 dvd int (unat (fs_outlen s0))" by (simp only: uint_nat)
  then show ?thesis by (rule dvd8_nat)
qed

lemma unat_add_16_mod: "unat ((a :: 16 word) + b) = (unat a + unat b) mod 65536"
  by (simp add: unat_word_ariths)

lemma frag1_payload_dvd:
  assumes f1: "frag1 cfg ext ieee buf buflen dest_panid m g iob pool = (g1, env, s0)"
    and nowrap: "uint (g_frame_hdrlen g) + 4 < 256"
  shows "8 dvd payload_len (unat (g_frame_hdrlen g) + 4) (fs_head s0)"
proof -
  let ?H = "unat (g_frame_hdrlen g) + 4"
  let ?a = "unat (fs_outlen s0)"
  have h: "unat (ucast (g_frame_hdrlen g + 4) :: 16 word) = ?H"
    by (simp only: unat_ucast_8_16 unat_plus4 [OF nowrap])
  have len: "unat (io_len (fs_head s0)) = (?a + ?H) mod 65536"
    by (simp only: frag1_results(13) [OF f1] unat_add_16_mod h)
  have a: "?a < 65536" using unsigned_less [of "fs_outlen s0"] by simp
  have "uint (g_frame_hdrlen g) = int (unat (g_frame_hdrlen g))" by (rule uint_nat)
  with nowrap have Hs: "?H < 256" by linarith
  show ?thesis
  proof (cases "?a + ?H < 65536")
    case True
    then have "(?a + ?H) mod 65536 = ?a + ?H" by (rule mod_less)
    with len have "unat (io_len (fs_head s0)) = ?a + ?H" by (simp only:)
    then have "payload_len ?H (fs_head s0) = ?a" by (simp only: payload_len_def add_diff_cancel_right')
    with frag1_outlen_dvd [OF f1] show ?thesis by (simp only:)
  next
    case False
    then have "65536 \<le> ?a + ?H" by simp
    moreover from a Hs have "?a + ?H - 65536 < 65536" by linarith
    ultimately have "(?a + ?H) mod 65536 = ?a + ?H - 65536"
      by (metis le_mod_geq mod_less)
    with len have "unat (io_len (fs_head s0)) = ?a + ?H - 65536" by (simp only:)
    with a have "unat (io_len (fs_head s0)) \<le> ?H" by linarith
    then have "payload_len ?H (fs_head s0) = 0" by (simp only: payload_len_def diff_is_0_eq)
    then show ?thesis by (simp only: dvd_0_right)
  qed
qed

text \<open>
  A pass of the loop that copies nothing leaves \<^verbatim>\<open>outlen\<close> as it was: the loop does not
  end, and the call does not return.
\<close>

lemma fragn_paysize_outlen:
  "fs_outlen t = fs_outlen s \<Longrightarrow> fragn_paysize env t = fragn_paysize env s"
  by (simp add: fragn_paysize_def Let_def)

lemma fragn_loop_stuck:
  assumes zero: "fragn_paysize env s0 = 0"
    and more: "ucast (fs_outlen s0) < fe_buflen env"
  shows "fragn_loop env s0 = None"
proof (cases "fragn_loop env s0")
  case None
  then show ?thesis .
next
  case (Some s)
  let ?I = "\<lambda>t::fragn_state. fs_outlen t = fs_outlen s0"
  have r: "?I s \<and> \<not> ucast (fs_outlen s) < fe_buflen env"
  proof (rule fragn_loop_partial [OF Some, where I = ?I])
    show "?I s0" by simp
  next
    fix t assume t: "?I t"
    from fragn_paysize_outlen [OF t, of env] zero have "fragn_paysize env t = 0" by simp
    with t show "?I (fragn_body env t)" by (simp add: fragn_body_outlen)
  qed
  from r have eq: "fs_outlen s = fs_outlen s0" by (rule conjunct1)
  from r have "\<not> ucast (fs_outlen s) < fe_buflen env" by (rule conjunct2)
  then have "\<not> ucast (fs_outlen s0) < fe_buflen env" unfolding eq .
  with more show ?thesis by blast
qed

lemma queue_frames_stuck:
  assumes m0: "0 \<le> framer_hdrlen_of ext ieee" and frag: "CONFIG_NET_6LOWPAN_FRAG cfg"
    and hdr: "headers_of cfg ext ieee pool destip buflen destmac = (g, iob)"
    and need: "needs_fragmentation cfg g buflen"
    and f1: "frag1 cfg ext ieee buf buflen (dest_panid_of ext ieee) (framer_hdrlen_of ext ieee)
               g iob (pool + 1) = (g1, env, s0)"
    and zero: "fragn_paysize env s0 = 0"
    and more: "ucast (fs_outlen s0) < fe_buflen env"
  shows "sixlowpan_queue_frames cfg ext ieee pool destip buf buflen destmac = None"
  using fragn_loop_stuck [OF zero more] queue_frames_fragmented [OF m0 frag hdr need, of buf] f1
  by simp

section \<open>Concrete runs\<close>

text \<open>
  The headers and the frames of the calls that the theorems below are applied to.
\<close>

lemmas headers_defs =
  headers_of_def framer_hdrlen_of_def iob_alloc_def dest_panid_of_def queue_headers_def
  destmac_of_def compress_headers_def sixlowpan_compress_ipv6hdr_def protosize_of_def
  ipv6_proto_def tcp_tcpoffset_def memcpy_def Let_def

lemmas field_defs = frag_dispatch_def frag_size_field_def frag_tag_def frag_offset_def GETINT16_def

lemma example_headers_udp:
  "fst (headers_of example_config (example_extern 11) (example_ieee tag) 0 example_udp buflen None)
     = \<lparr>g_uncomp_hdrlen = 48, g_frame_hdrlen = 60\<rparr>"
  by (simp add: headers_defs example_defs)

lemma example_headers_tcp60:
  "g_frame_hdrlen (fst (headers_of example_config (example_extern m) (example_ieee tag) 0
      example_tcp60 buflen None)) = word_of_int m + 101"
  by (simp add: headers_defs example_defs)

lemma example_headers_udp_321:
  "fst (headers_of (example_config\<lparr>CONFIG_NET_6LOWPAN_FRAMELEN := 321\<rparr>) (example_extern 11)
          (example_ieee tag) 0 example_udp buflen None)
     = \<lparr>g_uncomp_hdrlen = 48, g_frame_hdrlen = 60\<rparr>"
  by (simp add: headers_defs example_defs)

lemma example_run_68:
  "\<exists>ieee' g' pool'.
     sixlowpan_queue_frames example_config (example_extern 11) (example_ieee 7) 0
         example_udp example_payload 68 None = Some (OK, ieee', g', pool') \<and>
     length (i_framelist ieee') = 2 \<and>
     map (\<lambda>f. (io_len f, io_pktlen f, frag_dispatch 11 f, frag_size_field 11 f, frag_tag 11 f))
         (i_framelist ieee')
       = [(120, 197, 0xc0, 116, 7), (77, 0, 0xe0, 116, 7)]"
  by (simp add: queuer_defs example_defs field_defs)

lemma example_run_200:
  "\<exists>ieee' g' pool'.
     sixlowpan_queue_frames example_config (example_extern 11) (example_ieee 7) 0
         example_udp example_payload 200 None = Some (OK, ieee', g', pool') \<and>
     map io_len (i_framelist ieee') = [120, 121, 121, 97] \<and>
     map (frag_offset 11) (tl (i_framelist ieee')) = [7, 14, 21]"
  by (simp add: queuer_defs example_defs field_defs)

lemma example_run_tcp60_22:
  "result_code (sixlowpan_queue_frames example_config (example_extern 22) (example_ieee 7) 0
                  example_tcp60 example_payload 10 None) = Some OK"
  "map io_len (result_frames (sixlowpan_queue_frames example_config (example_extern 22)
                  (example_ieee 7) 0 example_tcp60 example_payload 10 None)) = [127, 138]"
  by (simp_all add: queuer_defs example_defs result_code_def result_frames_def)

lemma example_run_2100:
  "\<exists>ieee' g' pool'.
     sixlowpan_queue_frames example_config (example_extern 11) (example_ieee 7) 0
         example_udp example_payload 2100 None = Some (OK, ieee', g', pool') \<and>
     length (i_framelist ieee') = 38 \<and>
     payload_len 64 (hd (i_framelist ieee'))
       + sum_list (map (payload_len 65) (butlast (tl (i_framelist ieee')))) = 2072 \<and>
     payload_len 65 (last (i_framelist ieee')) = 28 \<and>
     frag_size_field 11 (hd (i_framelist ieee')) = 100 \<and>
     frag_offset 11 (last (i_framelist ieee')) = 3"
  by (simp add: queuer_defs example_defs field_defs payload_len_def)

lemma example_run_oversize:
  "result_code (sixlowpan_queue_frames (example_config\<lparr>CONFIG_NET_6LOWPAN_FRAG := False\<rparr>)
       (example_extern 200) (example_ieee 7) 0 example_udp example_payload 300 None) = Some OK"
  "map io_len (result_frames (sixlowpan_queue_frames
       (example_config\<lparr>CONFIG_NET_6LOWPAN_FRAG := False\<rparr>)
       (example_extern 200) (example_ieee 7) 0 example_udp example_payload 300 None)) = [549]"
  by (simp_all add: queuer_defs example_defs result_code_def result_frames_def)

lemma example_stuck_tcp60:
  "sixlowpan_queue_frames example_config (example_extern 21) (example_ieee 7) 0
       example_tcp60 example_payload 10 None = None"
proof -
  let ?h = "headers_of example_config (example_extern 21) (example_ieee 7) 0 example_tcp60 10 None"
  have g: "g_frame_hdrlen (fst ?h) = 122"
    by (simp add: example_headers_tcp60)
  have frag: "CONFIG_NET_6LOWPAN_FRAG example_config" by (simp add: example_config_def)
  have m0: "0 \<le> framer_hdrlen_of (example_extern 21) (example_ieee 7)"
    by (simp add: framer_hdrlen_of_def example_extern_def)
  have hdr: "?h = (fst ?h, snd ?h)" by simp
  have need: "needs_fragmentation example_config (fst ?h) 10"
    by (simp only: needs_fragmentation_def g) (simp add: example_config_def)
  obtain g1 env s0 where
    f1: "frag1 example_config (example_extern 21) (example_ieee 7) example_payload 10
           (dest_panid_of (example_extern 21) (example_ieee 7))
           (framer_hdrlen_of (example_extern 21) (example_ieee 7)) (fst ?h) (snd ?h) (0 + 1)
         = (g1, env, s0)"
    by (cases "frag1 example_config (example_extern 21) (example_ieee 7) example_payload 10
           (dest_panid_of (example_extern 21) (example_ieee 7))
           (framer_hdrlen_of (example_extern 21) (example_ieee 7)) (fst ?h) (snd ?h) (0 + 1)")
  note e = frag1_results [OF f1]
  have out0: "fs_outlen s0 = 0"
    by (simp only: e(12) g) (simp add: example_config_def)
  have zero: "fragn_paysize env s0 = 0"
    by (simp only: fragn_paysize_def fragn_hdrlen_of_def e(2,6,9) out0 g Let_def)
       (simp add: example_config_def)
  have more: "ucast (fs_outlen s0) < fe_buflen env"
    by (simp only: e(9) out0) simp
  show ?thesis by (rule queue_frames_stuck [OF m0 frag hdr need f1 zero more])
qed

lemma example_stuck_321:
  "sixlowpan_queue_frames (example_config\<lparr>CONFIG_NET_6LOWPAN_FRAMELEN := 321\<rparr>)
       (example_extern 11) (example_ieee 7) 0 example_udp example_payload 300 None = None"
proof -
  let ?cfg = "example_config\<lparr>CONFIG_NET_6LOWPAN_FRAMELEN := 321\<rparr>"
  let ?h = "headers_of ?cfg (example_extern 11) (example_ieee 7) 0 example_udp 300 None"
  have g: "g_frame_hdrlen (fst ?h) = 60"
    by (simp add: example_headers_udp_321)
  have frag: "CONFIG_NET_6LOWPAN_FRAG ?cfg" by (simp add: example_config_def)
  have F: "CONFIG_NET_6LOWPAN_FRAMELEN ?cfg = 321" by simp
  have m0: "0 \<le> framer_hdrlen_of (example_extern 11) (example_ieee 7)"
    by (simp add: framer_hdrlen_of_def example_extern_def)
  have hdr: "?h = (fst ?h, snd ?h)" by simp
  have need: "needs_fragmentation ?cfg (fst ?h) 300"
    by (simp only: needs_fragmentation_def g F) simp
  obtain g1 env s0 where
    f1: "frag1 ?cfg (example_extern 11) (example_ieee 7) example_payload 300
           (dest_panid_of (example_extern 11) (example_ieee 7))
           (framer_hdrlen_of (example_extern 11) (example_ieee 7)) (fst ?h) (snd ?h) (0 + 1)
         = (g1, env, s0)"
    by (cases "frag1 ?cfg (example_extern 11) (example_ieee 7) example_payload 300
           (dest_panid_of (example_extern 11) (example_ieee 7))
           (framer_hdrlen_of (example_extern 11) (example_ieee 7)) (fst ?h) (snd ?h) (0 + 1)")
  note e = frag1_results [OF f1]
  have out0: "fs_outlen s0 = 256"
    by (simp only: e(12) g F) simp
  have zero: "fragn_paysize env s0 = 0"
    by (simp only: fragn_paysize_def fragn_hdrlen_of_def e(2,6,9) out0 g F Let_def) simp
  have more: "ucast (fs_outlen s0) < fe_buflen env"
    by (simp only: e(9) out0) simp
  show ?thesis by (rule queue_frames_stuck [OF m0 frag hdr need f1 zero more])
qed

section \<open>The fragments of a datagram\<close>

text \<open>
  C1, as amended.  Fragmentation is compiled in, the MAC header-size query did not fail,
  and \<^verbatim>\<open>buflen\<close> is larger than the frame length less \<^verbatim>\<open>g_frame_hdrlen\<close>.  The frame
  length is at most 255, the headers and a FRAGN header leave at least 8 bytes of the
  frame, \<^verbatim>\<open>g_frame_hdrlen\<close> counts the MAC header, and \<^verbatim>\<open>buflen + g_uncomp_hdrlen\<close> is at
  most 2047, the largest value of the 11 bit size field.  Then the loop of the FRAGN
  frames ends with \<^verbatim>\<open>outlen\<close> equal to \<^verbatim>\<open>buflen\<close>, the call returns \<^verbatim>\<open>OK\<close>, and
  \<^verbatim>\<open>g_uncomp_hdrlen\<close> plus the payload of the FRAG1 frame plus the payloads of the FRAGN
  frames is \<^verbatim>\<open>buflen + g_uncomp_hdrlen\<close>, the value of the size field of every fragment.
\<close>

theorem fragments_cover_datagram:
  assumes frag: "CONFIG_NET_6LOWPAN_FRAG cfg"
    and m0: "0 \<le> framer_hdrlen_of ext ieee"
    and hdr: "headers_of cfg ext ieee pool destip buflen destmac = (g, iob)"
    and big: "CONFIG_NET_6LOWPAN_FRAMELEN cfg - uint (g_frame_hdrlen g) < uint buflen"
    and F: "CONFIG_NET_6LOWPAN_FRAMELEN cfg \<le> 255"
    and room: "uint (g_frame_hdrlen g) + SIXLOWPAN_FRAGN_HDR_LEN + 8
                 \<le> CONFIG_NET_6LOWPAN_FRAMELEN cfg"
    and mac: "framer_hdrlen_of ext ieee \<le> uint (g_frame_hdrlen g)"
    and size: "unat buflen + unat (g_uncomp_hdrlen g) \<le> 2047"
  shows "\<exists>ieee' g' pool' env s0 s f1 fs.
           frag1 cfg ext ieee buf buflen (dest_panid_of ext ieee) (framer_hdrlen_of ext ieee)
             g iob (pool + 1) = (g', env, s0) \<and>
           fragn_loop env s0 = Some s \<and> unat (fs_outlen s) = unat buflen \<and>
           sixlowpan_queue_frames cfg ext ieee pool destip buf buflen destmac =
             Some (OK, ieee', g', pool') \<and>
           i_framelist ieee' = f1 # fs \<and>
           unat (g_uncomp_hdrlen g)
             + payload_len (unat (g_frame_hdrlen g) + SIXLOWPAN_FRAG1_HDR_LEN) f1
             + sum_list (map (payload_len (unat (g_frame_hdrlen g) + SIXLOWPAN_FRAGN_HDR_LEN)) fs)
             = unat buflen + unat (g_uncomp_hdrlen g) \<and>
           (\<forall>f\<in>set (f1 # fs).
              unat (frag_size_field (nat (framer_hdrlen_of ext ieee)) f)
                = unat buflen + unat (g_uncomp_hdrlen g))"
proof -
  obtain g1 env s0 where
    f1: "frag1 cfg ext ieee buf buflen (dest_panid_of ext ieee) (framer_hdrlen_of ext ieee)
           g iob (pool + 1) = (g1, env, s0)"
    by (cases "frag1 cfg ext ieee buf buflen (dest_panid_of ext ieee) (framer_hdrlen_of ext ieee)
           g iob (pool + 1)")
  from room have room': "uint (g_frame_hdrlen g) + 13 \<le> CONFIG_NET_6LOWPAN_FRAMELEN cfg"
    by simp
  from size have small: "unat buflen < 2048" by simp
  from room have "uint (g_frame_hdrlen g) \<le> CONFIG_NET_6LOWPAN_FRAMELEN cfg" by simp
  then have need: "needs_fragmentation cfg g buflen"
    using big by (rule needs_fragmentation_int)
  from frag_total [OF f1 F room' need m0 mac small]
  obtain s where run: "fragn_loop env s0 = Some s"
    and inv: "frag_inv (nat (framer_hdrlen_of ext ieee)) (unat (g_frame_hdrlen g) + 4)
                (unat (g_frame_hdrlen g) + 5) (unat buflen) s"
    and out: "unat (fs_outlen s) = unat buflen"
    by blast
  let ?ieee' = "ieee\<lparr>i_framelist := fs_head s # fs_rest s, i_dgramtag := i_dgramtag ieee + 1\<rparr>"
  have res: "sixlowpan_queue_frames cfg ext ieee pool destip buf buflen destmac =
          Some (OK, ?ieee', g1, fs_pool s)"
    using queue_frames_fragmented [OF m0 frag hdr need, of buf] f1 run by simp
  from inv out have sum:
    "payload_len (unat (g_frame_hdrlen g) + 4) (fs_head s)
       + sum_list (map (payload_len (unat (g_frame_hdrlen g) + 5)) (fs_rest s)) = unat buflen"
    by (simp add: frag_inv_def)
  from room' F have nowrap: "uint (g_frame_hdrlen g) + 4 < 256" by linarith
  from frag_fields_run [OF f1 run m0 mac nowrap] size_field_value [OF size]
  have fld: "\<forall>f\<in>set (fs_head s # fs_rest s).
              unat (frag_size_field (nat (framer_hdrlen_of ext ieee)) f)
                = unat buflen + unat (g_uncomp_hdrlen g)"
    by simp
  from f1 run out res sum fld show ?thesis by (intro exI [of _ ?ieee'] exI) simp
qed

theorem fragments_cover_datagram_witness:
  "\<exists>ieee' g' pool' f1 fs.
     sixlowpan_queue_frames example_config (example_extern 11) (example_ieee 7) 0
         example_udp example_payload 200 None = Some (OK, ieee', g', pool') \<and>
     i_framelist ieee' = f1 # fs \<and>
     48 + payload_len 64 f1 + sum_list (map (payload_len 65) fs) = 248 \<and>
     unat (frag_size_field 11 f1) = 248"
proof -
  let ?h = "headers_of example_config (example_extern 11) (example_ieee 7) 0 example_udp 200 None"
  have g: "fst ?h = \<lparr>g_uncomp_hdrlen = 48, g_frame_hdrlen = 60\<rparr>"
    by (rule example_headers_udp)
  have frag: "CONFIG_NET_6LOWPAN_FRAG example_config" by (simp add: example_config_def)
  have m: "framer_hdrlen_of (example_extern 11) (example_ieee 7) = 11"
    by (simp add: framer_hdrlen_of_def example_extern_def)
  then have m0: "0 \<le> framer_hdrlen_of (example_extern 11) (example_ieee 7)" by simp
  have hdr: "?h = (fst ?h, snd ?h)" by simp
  have big: "CONFIG_NET_6LOWPAN_FRAMELEN example_config - uint (g_frame_hdrlen (fst ?h))
               < uint (200 :: size_t)"
    by (simp only: g) (simp add: example_config_def)
  have F: "CONFIG_NET_6LOWPAN_FRAMELEN example_config \<le> 255" by (simp add: example_config_def)
  have room: "uint (g_frame_hdrlen (fst ?h)) + SIXLOWPAN_FRAGN_HDR_LEN + 8
                 \<le> CONFIG_NET_6LOWPAN_FRAMELEN example_config"
    by (simp only: g) (simp add: example_config_def)
  have mac: "framer_hdrlen_of (example_extern 11) (example_ieee 7) \<le> uint (g_frame_hdrlen (fst ?h))"
    by (simp add: g m)
  have size: "unat (200 :: size_t) + unat (g_uncomp_hdrlen (fst ?h)) \<le> 2047"
    by (simp add: g)
  from fragments_cover_datagram [OF frag m0 hdr big F room mac size, of example_payload]
  show ?thesis by (simp add: g m) blast
qed

text \<open>
  C1 as it is written fails in three ways.  With a MAC header of 21 bytes and a TCP
  header of 60 bytes \<^verbatim>\<open>g_frame_hdrlen\<close> is 122: a datagram of 10 bytes does not fit the 5
  bytes left of 127, the FRAG1 and FRAGN headers leave no room for payload, every pass of
  the loop copies 0 bytes and the call never returns.  With a frame length of 321 the
  payload size of a FRAGN frame, masked with \<^verbatim>\<open>0xf8\<close>, is 0 again.  And for a datagram of
  2100 bytes the call returns \<^verbatim>\<open>OK\<close> and the fragments carry 2148 bytes with the headers
  counted by \<^verbatim>\<open>g_uncomp_hdrlen\<close>, but the size field, 11 bits wide, holds 100.
\<close>

theorem fragments_cover_datagram_counterexample:
  "CONFIG_NET_6LOWPAN_FRAG example_config \<and>
   CONFIG_NET_6LOWPAN_FRAMELEN example_config
     - uint (g_frame_hdrlen (fst (headers_of example_config (example_extern 21) (example_ieee 7)
               0 example_tcp60 10 None))) < uint (10 :: size_t) \<and>
   sixlowpan_queue_frames example_config (example_extern 21) (example_ieee 7) 0
       example_tcp60 example_payload 10 None = None \<and>
   CONFIG_NET_6LOWPAN_FRAMELEN (example_config\<lparr>CONFIG_NET_6LOWPAN_FRAMELEN := 321\<rparr>)
     - uint (g_frame_hdrlen (fst (headers_of
               (example_config\<lparr>CONFIG_NET_6LOWPAN_FRAMELEN := 321\<rparr>) (example_extern 11)
               (example_ieee 7) 0 example_udp 300 None))) < uint (300 :: size_t) \<and>
   sixlowpan_queue_frames (example_config\<lparr>CONFIG_NET_6LOWPAN_FRAMELEN := 321\<rparr>)
       (example_extern 11) (example_ieee 7) 0 example_udp example_payload 300 None = None \<and>
   result_code (sixlowpan_queue_frames example_config (example_extern 11) (example_ieee 7) 0
      example_udp example_payload 2100 None) = Some OK \<and>
   unat (g_uncomp_hdrlen (fst (headers_of example_config (example_extern 11) (example_ieee 7)
           0 example_udp 2100 None)))
     + payload_len 64 (hd (result_frames (sixlowpan_queue_frames example_config
         (example_extern 11) (example_ieee 7) 0 example_udp example_payload 2100 None)))
     + sum_list (map (payload_len 65) (tl (result_frames (sixlowpan_queue_frames example_config
         (example_extern 11) (example_ieee 7) 0 example_udp example_payload 2100 None))))
     = 2148 \<and>
   unat (frag_size_field 11 (hd (result_frames (sixlowpan_queue_frames example_config
      (example_extern 11) (example_ieee 7) 0 example_udp example_payload 2100 None)))) = 100"
proof -
  let ?r = "sixlowpan_queue_frames example_config (example_extern 11) (example_ieee 7) 0
      example_udp example_payload 2100 None"
  from example_run_2100 obtain ieee' g' pool' where
    ok: "?r = Some (OK, ieee', g', pool')"
    and len: "length (i_framelist ieee') = 38"
    and sum: "payload_len 64 (hd (i_framelist ieee'))
       + sum_list (map (payload_len 65) (butlast (tl (i_framelist ieee')))) = 2072"
    and lst: "payload_len 65 (last (i_framelist ieee')) = 28"
    and fld: "frag_size_field 11 (hd (i_framelist ieee')) = 100"
    by (elim exE conjE)
  have c: "result_code ?r = Some OK" by (simp add: ok result_code_def)
  have f: "result_frames ?r = i_framelist ieee'" by (simp add: ok result_frames_def)
  from len have ne: "tl (i_framelist ieee') \<noteq> []"
    by (cases "i_framelist ieee'") auto
  then have t: "tl (i_framelist ieee') = butlast (tl (i_framelist ieee')) @ [last (i_framelist ieee')]"
    by (metis append_butlast_last_id last_tl list.sel(2))
  have "sum_list (map (payload_len 65) (tl (i_framelist ieee')))
          = sum_list (map (payload_len 65) (butlast (tl (i_framelist ieee'))))
            + payload_len 65 (last (i_framelist ieee'))"
    by (subst t) simp
  with sum lst have total: "payload_len 64 (hd (i_framelist ieee'))
       + sum_list (map (payload_len 65) (tl (i_framelist ieee'))) = 2100"
    by linarith
  have u: "unat (g_uncomp_hdrlen (fst (headers_of example_config (example_extern 11)
             (example_ieee 7) 0 example_udp 2100 None))) = 48"
    by (simp add: example_headers_udp)
  from total u have s: "unat (g_uncomp_hdrlen (fst (headers_of example_config (example_extern 11)
           (example_ieee 7) 0 example_udp 2100 None)))
     + payload_len 64 (hd (i_framelist ieee'))
     + sum_list (map (payload_len 65) (tl (i_framelist ieee'))) = 2148"
    by linarith
  from fld have v: "unat (frag_size_field 11 (hd (i_framelist ieee'))) = 100" by simp
  have a1: "CONFIG_NET_6LOWPAN_FRAG example_config" by (simp add: example_config_def)
  have a2: "CONFIG_NET_6LOWPAN_FRAMELEN example_config
     - uint (g_frame_hdrlen (fst (headers_of example_config (example_extern 21) (example_ieee 7)
               0 example_tcp60 10 None))) < uint (10 :: size_t)"
    by (simp only: example_headers_tcp60) (simp add: example_config_def)
  have a3: "CONFIG_NET_6LOWPAN_FRAMELEN (example_config\<lparr>CONFIG_NET_6LOWPAN_FRAMELEN := 321\<rparr>)
     - uint (g_frame_hdrlen (fst (headers_of
               (example_config\<lparr>CONFIG_NET_6LOWPAN_FRAMELEN := 321\<rparr>) (example_extern 11)
               (example_ieee 7) 0 example_udp 300 None))) < uint (300 :: size_t)"
    by (simp add: example_headers_udp_321)
  from a1 a2 example_stuck_tcp60 a3 example_stuck_321 c s v show ?thesis
    unfolding f by (intro conjI)
qed



text \<open>
  C4, as amended.  The datagram is fragmented, has less than 2048 bytes, and the call
  returns \<^verbatim>\<open>OK\<close>; the frame is laid out as for C3.  Then the payload of the FRAG1 frame
  and of every FRAGN frame but the last is a multiple of 8, and the offset byte of every
  FRAGN frame is the payload of the frames before it, divided by 8.
\<close>

theorem fragment_alignment_and_offsets:
  assumes ok: "sixlowpan_queue_frames cfg ext ieee pool destip buf buflen destmac =
                 Some (OK, ieee', g', pool')"
    and hdr: "headers_of cfg ext ieee pool destip buflen destmac = (g, iob)"
    and need: "needs_fragmentation cfg g buflen"
    and mac: "framer_hdrlen_of ext ieee \<le> uint (g_frame_hdrlen g)"
    and nowrap: "uint (g_frame_hdrlen g) + SIXLOWPAN_FRAG1_HDR_LEN < 256"
    and small: "unat buflen < 2048"
  shows "\<exists>f1 fs.
           i_framelist ieee' = f1 # fs \<and>
           8 dvd payload_len (unat (g_frame_hdrlen g) + SIXLOWPAN_FRAG1_HDR_LEN) f1 \<and>
           (\<forall>f\<in>set (butlast fs).
              8 dvd payload_len (unat (g_frame_hdrlen g) + SIXLOWPAN_FRAGN_HDR_LEN) f) \<and>
           offsets_from (nat (framer_hdrlen_of ext ieee))
             (unat (g_frame_hdrlen g) + SIXLOWPAN_FRAGN_HDR_LEN)
             (payload_len (unat (g_frame_hdrlen g) + SIXLOWPAN_FRAG1_HDR_LEN) f1) fs"
proof -
  let ?m = "nat (framer_hdrlen_of ext ieee)"
  let ?G = "unat (g_frame_hdrlen g)"
  let ?H = "?G + 4"
  let ?B = "unat buflen"
  note m0 = queue_frames_OK(1) [OF ok]
  from queue_frames_OK(2) [OF ok] hdr need have fr: "CONFIG_NET_6LOWPAN_FRAG cfg" by simp
  obtain g1 env s0 where
    f1: "frag1 cfg ext ieee buf buflen (dest_panid_of ext ieee) (framer_hdrlen_of ext ieee)
           g iob (pool + 1) = (g1, env, s0)"
    by (cases "frag1 cfg ext ieee buf buflen (dest_panid_of ext ieee) (framer_hdrlen_of ext ieee)
           g iob (pool + 1)")
  from ok queue_frames_fragmented [OF m0 fr hdr need, of buf] f1
  obtain s where run: "fragn_loop env s0 = Some s"
    and res: "ieee' = ieee\<lparr>i_framelist := fs_head s # fs_rest s,
                            i_dgramtag := i_dgramtag ieee + 1\<rparr>"
    by (auto split: option.splits)
  note e = frag1_results [OF f1]
  note h = fragn_hdrlen_exact [OF f1 nowrap]
  have G: "uint (g_frame_hdrlen g) = int ?G" by (rule uint_nat)
  have d0: "8 dvd payload_len ?H (fs_head s0)" by (rule frag1_payload_dvd [OF f1 nowrap])
  have inv: "8 dvd payload_len ?H (fs_head s) \<and>
             (\<forall>f\<in>set (butlast (fs_rest s)). 8 dvd payload_len (?G + 5) f) \<and>
             offsets_from ?m (?G + 5) (payload_len ?H (fs_head s)) (fs_rest s)"
  proof (cases "ucast (fs_outlen s0) < fe_buflen env")
    case False
    then have "fragn_loop env s0 = Some s0" by (subst fragn_loop.simps) simp
    with run have s: "s = s0" by simp
    have r: "fs_rest s0 = []" by (rule e(10))
    show ?thesis unfolding s r using d0 by simp
  next
    case True
    then have lt: "unat (fs_outlen s0) < ?B"
      by (simp add: e(9) word_less_nat_alt unat_ucast_16_32)
    have "unat (fs_outlen s0) + unat (ucast (g_frame_hdrlen g + 4) :: 16 word) < 65536"
      using lt small by (simp add: unat_ucast_8_16 unat_plus4 [OF nowrap]) (use nowrap G in linarith)
    then have "unat (io_len (fs_head s0)) = unat (fs_outlen s0) + ?H"
      by (simp only: e(13) unat_add_16 unat_ucast_8_16 unat_plus4 [OF nowrap])
    then have pl0: "payload_len ?H (fs_head s0) = unat (fs_outlen s0)"
      by (simp add: payload_len_def)
    have init: "frag_inv ?m ?H (?G + 5) ?B s0"
      using lt pl0 d0 by (simp add: frag_inv_def e(10))
    define p where
      "p = nat ((CONFIG_NET_6LOWPAN_FRAMELEN (fe_cfg env) - uint (fragn_hdrlen_of env)) AND 0xf8)"
    have pp: "nat ((CONFIG_NET_6LOWPAN_FRAMELEN (fe_cfg env) - uint (fragn_hdrlen_of env)) AND 0xf8) = p"
      by (simp only: p_def)
    have B: "unat (fe_buflen env) = ?B" by (simp only: e(9))
    have mm: "nat (fe_framer_hdrlen env) = ?m" by (simp only: e(5))
    have mH: "?m + 5 \<le> ?G + 5" using mac m0 G by linarith
    have Hs: "?G + 5 < 1000" using nowrap G by linarith
    have "frag_inv ?m ?H (?G + 5) ?B s \<and> \<not> ucast (fs_outlen s) < fe_buflen env"
    proof (rule fragn_loop_partial [OF run, where I = "frag_inv ?m ?H (?G + 5) ?B"])
      show "frag_inv ?m ?H (?G + 5) ?B s0" by (rule init)
    next
      fix t assume i: "frag_inv ?m ?H (?G + 5) ?B t" and c: "ucast (fs_outlen t) < fe_buflen env"
      show "frag_inv ?m ?H (?G + 5) ?B (fragn_body env t)"
        by (rule frag_inv_step(1) [OF h(2) pp B small mm mH Hs i c])
    qed
    then have "frag_inv ?m ?H (?G + 5) ?B s" by (rule conjunct1)
    then show ?thesis unfolding frag_inv_def by (elim conjE) (intro conjI)
  qed
  from res have l: "i_framelist ieee' = fs_head s # fs_rest s" by simp
  show ?thesis
  proof (intro exI conjI)
    show "i_framelist ieee' = fs_head s # fs_rest s" by (rule l)
    show "8 dvd payload_len ?H (fs_head s)" using inv by (rule conjunct1)
    show "\<forall>f\<in>set (butlast (fs_rest s)). 8 dvd payload_len (?G + 5) f"
      using inv by (elim conjE)
    show "offsets_from ?m (?G + 5) (payload_len ?H (fs_head s)) (fs_rest s)"
      using inv by (elim conjE)
  qed
qed

theorem fragment_alignment_and_offsets_witness:
  "\<exists>ieee' g' pool' f1 fs.
     sixlowpan_queue_frames example_config (example_extern 11) (example_ieee 7) 0
         example_udp example_payload 200 None = Some (OK, ieee', g', pool') \<and>
     i_framelist ieee' = f1 # fs \<and> length fs = 3 \<and>
     8 dvd payload_len 64 f1 \<and>
     (\<forall>f\<in>set (butlast fs). 8 dvd payload_len 65 f) \<and>
     offsets_from 11 65 (payload_len 64 f1) fs"
proof -
  let ?h = "headers_of example_config (example_extern 11) (example_ieee 7) 0 example_udp 200 None"
  from example_run_200 obtain ieee' g' pool' where
    ok: "sixlowpan_queue_frames example_config (example_extern 11) (example_ieee 7) 0
           example_udp example_payload 200 None = Some (OK, ieee', g', pool')"
    and lens: "map io_len (i_framelist ieee') = [120, 121, 121, 97]"
    by (elim exE conjE)
  have g: "fst ?h = \<lparr>g_uncomp_hdrlen = 48, g_frame_hdrlen = 60\<rparr>"
    by (rule example_headers_udp)
  have hdr: "?h = (fst ?h, snd ?h)" by simp
  have m: "framer_hdrlen_of (example_extern 11) (example_ieee 7) = 11"
    by (simp add: framer_hdrlen_of_def example_extern_def)
  have need: "needs_fragmentation example_config (fst ?h) 200"
    by (simp only: g) (simp add: needs_fragmentation_def example_config_def)
  have mac: "framer_hdrlen_of (example_extern 11) (example_ieee 7) \<le> uint (g_frame_hdrlen (fst ?h))"
    by (simp only: g m) simp
  have nowrap: "uint (g_frame_hdrlen (fst ?h)) + SIXLOWPAN_FRAG1_HDR_LEN < 256"
    by (simp only: g) simp
  have small: "unat (200 :: size_t) < 2048" by simp
  have H: "unat (g_frame_hdrlen (fst ?h)) + 4 = 64" by (simp only: g) simp
  have H5: "unat (g_frame_hdrlen (fst ?h)) + 5 = 65" by (simp only: g) simp
  have n: "nat (framer_hdrlen_of (example_extern 11) (example_ieee 7)) = 11"
    by (simp add: m)
  from fragment_alignment_and_offsets [OF ok hdr need mac nowrap small]
  obtain f1 fs where l: "i_framelist ieee' = f1 # fs"
    and a: "8 dvd payload_len 64 f1"
    and b: "\<forall>f\<in>set (butlast fs). 8 dvd payload_len 65 f"
    and c: "offsets_from 11 65 (payload_len 64 f1) fs"
    unfolding H H5 n by (elim exE conjE)
  from arg_cong [OF lens, of length] have "length (i_framelist ieee') = 4" by simp
  with l have len: "length fs = 3" by simp
  from ok l len a b c show ?thesis by (intro exI conjI)
qed

text \<open>
  C4 as it is written fails for a datagram of 2100 bytes: the call returns \<^verbatim>\<open>OK\<close> with
  38 frames, the frames before the last carry 2072 bytes, which is 259 units of 8 bytes,
  and the offset byte of the last frame, \<^verbatim>\<open>outlen >> 3\<close> in 8 bits, is 3.
\<close>

theorem fragment_alignment_and_offsets_counterexample:
  "result_code (sixlowpan_queue_frames example_config (example_extern 11) (example_ieee 7) 0
      example_udp example_payload 2100 None) = Some OK \<and>
   length (result_frames (sixlowpan_queue_frames example_config (example_extern 11)
      (example_ieee 7) 0 example_udp example_payload 2100 None)) = 38 \<and>
   (payload_len 64 (hd (result_frames (sixlowpan_queue_frames example_config
        (example_extern 11) (example_ieee 7) 0 example_udp example_payload 2100 None)))
     + sum_list (map (payload_len 65) (butlast (tl (result_frames (sixlowpan_queue_frames
        example_config (example_extern 11) (example_ieee 7) 0 example_udp example_payload
        2100 None)))))) div 8 = 259 \<and>
   unat (frag_offset 11 (last (result_frames (sixlowpan_queue_frames example_config
      (example_extern 11) (example_ieee 7) 0 example_udp example_payload 2100 None)))) = 3"
proof -
  let ?r = "sixlowpan_queue_frames example_config (example_extern 11) (example_ieee 7) 0
      example_udp example_payload 2100 None"
  from example_run_2100 obtain ieee' g' pool' where
    ok: "?r = Some (OK, ieee', g', pool')"
    and len: "length (i_framelist ieee') = 38"
    and sum: "payload_len 64 (hd (i_framelist ieee'))
       + sum_list (map (payload_len 65) (butlast (tl (i_framelist ieee')))) = 2072"
    and off: "frag_offset 11 (last (i_framelist ieee')) = 3"
    by (elim exE conjE)
  have c: "result_code ?r = Some OK" by (simp add: ok result_code_def)
  have f: "result_frames ?r = i_framelist ieee'" by (simp add: ok result_frames_def)
  from sum have d: "(payload_len 64 (hd (i_framelist ieee'))
       + sum_list (map (payload_len 65) (butlast (tl (i_framelist ieee'))))) div 8 = 259"
    by simp
  from off have o: "unat (frag_offset 11 (last (i_framelist ieee'))) = 3" by simp
  from c len d o show ?thesis unfolding f by (intro conjI)
qed

section \<open>The length of a frame\<close>

text \<open>
  C2, as amended.  The call returns \<^verbatim>\<open>OK\<close>, and \<^verbatim>\<open>g_frame_hdrlen\<close> after the
  compression step is at most the frame length; for a datagram longer than the room
  behind these headers, which is sent in fragments, \<^verbatim>\<open>g_frame_hdrlen\<close> and the 5 bytes
  of a FRAGN header are at most the frame length.  Then every frame of the list is at
  most \<^verbatim>\<open>CONFIG_NET_6LOWPAN_FRAMELEN\<close> bytes long.
\<close>

theorem frame_len_bound:
  assumes ok: "sixlowpan_queue_frames cfg ext ieee pool destip buf buflen destmac =
                 Some (OK, ieee', g', pool')"
    and hdr: "headers_of cfg ext ieee pool destip buflen destmac = (g, iob)"
    and room: "uint (g_frame_hdrlen g)
                 + (if CONFIG_NET_6LOWPAN_FRAMELEN cfg - uint (g_frame_hdrlen g) < uint buflen
                    then SIXLOWPAN_FRAGN_HDR_LEN else 0)
               \<le> CONFIG_NET_6LOWPAN_FRAMELEN cfg"
  shows "\<forall>f\<in>set (i_framelist ieee'). uint (io_len f) \<le> CONFIG_NET_6LOWPAN_FRAMELEN cfg"
proof -
  let ?F = "CONFIG_NET_6LOWPAN_FRAMELEN cfg"
  let ?y = "?F - uint (g_frame_hdrlen g)"
  note m = queue_frames_OK(1) [OF ok]
  from room have r0: "uint (g_frame_hdrlen g) \<le> ?F" by (simp split: if_splits)
  show ?thesis
  proof (cases "needs_fragmentation cfg g buflen")
    case True
    with queue_frames_OK(2) [OF ok] hdr have frag: "CONFIG_NET_6LOWPAN_FRAG cfg" by simp
    have r5: "uint (g_frame_hdrlen g) + 5 \<le> ?F"
    proof (cases "?y < uint buflen")
      case True
      with room show ?thesis by simp
    next
      case False
      from r0 have y0: "0 \<le> ?y" by simp
      from \<open>needs_fragmentation cfg g buflen\<close>
      have lt: "uint (word_of_int ?y :: size_t) < uint buflen"
        by (simp only: needs_fragmentation_def word_less_def)
      have "\<not> ?y < 4294967296"
      proof
        assume "?y < 4294967296"
        with y0 have "uint (word_of_int ?y :: size_t) = ?y" by (rule uint_word_of_int_32)
        with lt False show False by simp
      qed
      moreover have "uint (g_frame_hdrlen g) < 256"
        using uint_bounded [of "g_frame_hdrlen g"] by simp
      ultimately show ?thesis by linarith
    qed
    obtain g1 env s0 where
      f1: "frag1 cfg ext ieee buf buflen (dest_panid_of ext ieee) (framer_hdrlen_of ext ieee)
             g iob (pool + 1) = (g1, env, s0)"
      by (cases "frag1 cfg ext ieee buf buflen (dest_panid_of ext ieee) (framer_hdrlen_of ext ieee)
             g iob (pool + 1)")
    from ok queue_frames_fragmented [OF m frag hdr True, of buf] f1
    obtain s where run: "fragn_loop env s0 = Some s"
      and res: "ieee' = ieee\<lparr>i_framelist := fs_head s # fs_rest s,
                              i_dgramtag := i_dgramtag ieee + 1\<rparr>"
      by (auto split: option.splits)
    have cfg: "fe_cfg env = cfg" by (rule frag1_results(2) [OF f1])
    have "uint (fragn_hdrlen_of env) \<le> CONFIG_NET_6LOWPAN_FRAMELEN (fe_cfg env)"
      using fragn_hdrlen_le [OF f1] r5 cfg by simp
    from fragn_loop_len [OF run this frag1_results(10) [OF f1]] cfg
    have rest: "\<forall>f\<in>set (fs_rest s). uint (io_len f) \<le> ?F"
      by simp
    have "uint (io_len (fs_head s0)) \<le> ?F"
      using frag1_len_le [OF f1] r5 by simp
    with fragn_loop_head [OF run]
    have "uint (io_len (fs_head s)) \<le> ?F" by simp
    with rest res show ?thesis by simp
  next
    case False
    from ok queue_frames_single [OF m hdr False, of buf]
    have "i_framelist ieee' = [single_frame ext ieee buf buflen (dest_panid_of ext ieee)
                     (framer_hdrlen_of ext ieee) g iob]"
      by auto
    with single_frame_len_le [OF False r0] show ?thesis by simp
  qed
qed

theorem frame_len_bound_witness:
  "\<exists>ieee' g' pool'.
     sixlowpan_queue_frames example_config (example_extern 11) (example_ieee 7) 0
         example_udp example_payload 68 None = Some (OK, ieee', g', pool') \<and>
     length (i_framelist ieee') = 2 \<and>
     (\<forall>f\<in>set (i_framelist ieee'). uint (io_len f) \<le> 127)"
proof -
  let ?h = "headers_of example_config (example_extern 11) (example_ieee 7) 0 example_udp 68 None"
  from example_run_68 obtain ieee' g' pool' where
    ok: "sixlowpan_queue_frames example_config (example_extern 11) (example_ieee 7) 0
           example_udp example_payload 68 None = Some (OK, ieee', g', pool')"
    and len: "length (i_framelist ieee') = 2"
    by (elim exE conjE)
  have g: "fst ?h = \<lparr>g_uncomp_hdrlen = 48, g_frame_hdrlen = 60\<rparr>"
    by (rule example_headers_udp)
  have hdr: "?h = (fst ?h, snd ?h)" by simp
  have room: "uint (g_frame_hdrlen (fst ?h))
                 + (if CONFIG_NET_6LOWPAN_FRAMELEN example_config - uint (g_frame_hdrlen (fst ?h))
                         < uint (68 :: size_t)
                    then SIXLOWPAN_FRAGN_HDR_LEN else 0)
               \<le> CONFIG_NET_6LOWPAN_FRAMELEN example_config"
    by (simp only: g) (simp add: example_config_def)
  have F: "CONFIG_NET_6LOWPAN_FRAMELEN example_config = 127" by (simp add: example_config_def)
  from frame_len_bound [OF ok hdr room] have
    "\<forall>f\<in>set (i_framelist ieee'). uint (io_len f) \<le> 127"
    unfolding F .
  with ok len have "sixlowpan_queue_frames example_config (example_extern 11) (example_ieee 7) 0
         example_udp example_payload 68 None = Some (OK, ieee', g', pool') \<and>
     length (i_framelist ieee') = 2 \<and>
     (\<forall>f\<in>set (i_framelist ieee'). uint (io_len f) \<le> 127)" by (intro conjI)
  then show ?thesis by (intro exI)
qed

text \<open>
  C2 as it is written fails when the headers fit the frame and the fragment header does
  not.  With a MAC header of 22 bytes and a TCP header of 60 bytes \<^verbatim>\<open>g_frame_hdrlen\<close> is
  123, less than 127; a datagram of 10 bytes is fragmented, the FRAGN header makes 128
  bytes of headers, the payload size is \<^verbatim>\<open>-1 & 0xf8\<close>, and the second frame has 138
  bytes.
\<close>

theorem frame_len_bound_counterexample:
  "uint (g_frame_hdrlen (fst (headers_of example_config (example_extern 22) (example_ieee 7) 0
                                 example_tcp60 10 None))) = 123 \<and>
   CONFIG_NET_6LOWPAN_FRAMELEN example_config = 127 \<and>
   result_code (sixlowpan_queue_frames example_config (example_extern 22) (example_ieee 7) 0
                  example_tcp60 example_payload 10 None) = Some OK \<and>
   map io_len (result_frames (sixlowpan_queue_frames example_config (example_extern 22)
                  (example_ieee 7) 0 example_tcp60 example_payload 10 None)) = [127, 138]"
proof (intro conjI)
  show "uint (g_frame_hdrlen (fst (headers_of example_config (example_extern 22)
      (example_ieee 7) 0 example_tcp60 10 None))) = 123"
    by (simp add: example_headers_tcp60)
  show "CONFIG_NET_6LOWPAN_FRAMELEN example_config = 127" by (simp add: example_config_def)
  show "result_code (sixlowpan_queue_frames example_config (example_extern 22) (example_ieee 7) 0
                  example_tcp60 example_payload 10 None) = Some OK"
    by (rule example_run_tcp60_22(1))
  show "map io_len (result_frames (sixlowpan_queue_frames example_config (example_extern 22)
                  (example_ieee 7) 0 example_tcp60 example_payload 10 None)) = [127, 138]"
    by (rule example_run_tcp60_22(2))
qed

section \<open>Failure returns\<close>

text \<open>
  C10.  A failure of the MAC header-size query is returned as it is, and on every failure
  return (that one, or \<^verbatim>\<open>-E2BIG\<close> for a datagram too large when fragmentation is not
  compiled in) the interface is as it was at entry: the frame list and the datagram
  tag are unchanged.  The buffer allocated at the start is not given back: one buffer
  more is in use.
\<close>

theorem queue_frames_failure_state:
  "(framer_hdrlen_of ext ieee < 0 \<longrightarrow>
      sixlowpan_queue_frames cfg ext ieee pool destip buf buflen destmac =
        Some (framer_hdrlen_of ext ieee, ieee,
              \<lparr>g_uncomp_hdrlen = 0, g_frame_hdrlen = 0\<rparr>, pool + 1)) \<and>
   (\<forall>ret ieee' g' pool'.
      sixlowpan_queue_frames cfg ext ieee pool destip buf buflen destmac =
        Some (ret, ieee', g', pool') \<and> ret \<noteq> OK \<longrightarrow>
      (ret = framer_hdrlen_of ext ieee \<and> ret < 0 \<or>
       ret = - E2BIG \<and> \<not> CONFIG_NET_6LOWPAN_FRAG cfg \<and> 0 \<le> framer_hdrlen_of ext ieee \<and>
         needs_fragmentation cfg
           (fst (headers_of cfg ext ieee pool destip buflen destmac)) buflen) \<and>
      ieee' = ieee \<and> i_framelist ieee' = i_framelist ieee \<and>
      i_dgramtag ieee' = i_dgramtag ieee \<and> pool' = pool + 1)"
  by (auto simp add: sixlowpan_queue_frames_def framer_hdrlen_of_def headers_of_def
      iob_alloc_def Let_def split: prod.splits option.splits if_splits)

theorem queue_frames_failure_state_witness:
  "framer_hdrlen_of (example_extern (- 22)) (example_ieee 7) < 0 \<and>
   sixlowpan_queue_frames example_config (example_extern (- 22)) (example_ieee 7) 0
       example_udp example_payload 20 None =
     Some (- 22, example_ieee 7, \<lparr>g_uncomp_hdrlen = 0, g_frame_hdrlen = 0\<rparr>, 1) \<and>
   i_framelist (example_ieee 7) = [] \<and> i_dgramtag (example_ieee 7) = 7"
proof -
  have m: "framer_hdrlen_of (example_extern (- 22)) (example_ieee 7) = - 22"
    by (simp add: framer_hdrlen_of_def example_extern_def)
  then have a: "framer_hdrlen_of (example_extern (- 22)) (example_ieee 7) < 0"
    by simp
  note t = queue_frames_failure_state [of "example_extern (- 22)" "example_ieee 7"
      example_config 0 example_udp example_payload 20 None]
  from t [THEN conjunct1] a have
    r: "sixlowpan_queue_frames example_config (example_extern (- 22)) (example_ieee 7) 0
          example_udp example_payload 20 None =
        Some (framer_hdrlen_of (example_extern (- 22)) (example_ieee 7), example_ieee 7,
              \<lparr>g_uncomp_hdrlen = 0, g_frame_hdrlen = 0\<rparr>, 0 + 1)"
    by (rule mp)
  have "i_framelist (example_ieee 7) = [] \<and> i_dgramtag (example_ieee 7) = 7"
    by (simp add: example_ieee_def)
  with a r m show ?thesis by simp
qed

text \<open>
  C8, as amended.  Fragmentation is not compiled in, the MAC header-size query did not
  fail, the headers that the compression step leaves (\<^verbatim>\<open>g_frame_hdrlen\<close>) fit the frame,
  and \<^verbatim>\<open>buflen\<close> is larger than the frame length less \<^verbatim>\<open>g_frame_hdrlen\<close>.  Then the call
  returns \<^verbatim>\<open>-E2BIG\<close> and the interface is as at entry: no frame is queued.
\<close>

theorem oversize_without_frag:
  assumes nofrag: "\<not> CONFIG_NET_6LOWPAN_FRAG cfg"
    and m0: "0 \<le> framer_hdrlen_of ext ieee"
    and hdr: "headers_of cfg ext ieee pool destip buflen destmac = (g, iob)"
    and fits: "uint (g_frame_hdrlen g) \<le> CONFIG_NET_6LOWPAN_FRAMELEN cfg"
    and big: "CONFIG_NET_6LOWPAN_FRAMELEN cfg - uint (g_frame_hdrlen g) < uint buflen"
  shows "sixlowpan_queue_frames cfg ext ieee pool destip buf buflen destmac =
           Some (- E2BIG, ieee, g, pool + 1)"
proof -
  have need: "needs_fragmentation cfg g buflen"
    by (rule needs_fragmentation_int [OF fits big])
  from m0 have "\<not> ext_send_hdrlen ext ieee (dest_panid_of ext ieee) < 0"
    by (simp add: framer_hdrlen_of_def)
  moreover from hdr have
    "queue_headers cfg ext ieee destip buflen destmac
       (ext_send_hdrlen ext ieee (dest_panid_of ext ieee))
       \<lparr>io_len = 0, io_offset = 0, io_pktlen = 0, io_data = ext_iob_data ext pool\<rparr> = (g, iob)"
    by (simp add: headers_of_def framer_hdrlen_of_def iob_alloc_def)
  ultimately show ?thesis using nofrag need
    by (simp add: sixlowpan_queue_frames_def iob_alloc_def Let_def)
qed

theorem oversize_without_frag_witness:
  "\<not> CONFIG_NET_6LOWPAN_FRAG (example_config\<lparr>CONFIG_NET_6LOWPAN_FRAG := False\<rparr>) \<and>
   uint (g_frame_hdrlen (fst (headers_of (example_config\<lparr>CONFIG_NET_6LOWPAN_FRAG := False\<rparr>)
           (example_extern 11) (example_ieee 7) 0 example_udp 200 None))) = 60 \<and>
   CONFIG_NET_6LOWPAN_FRAMELEN (example_config\<lparr>CONFIG_NET_6LOWPAN_FRAG := False\<rparr>) = 127 \<and>
   uint (200 :: size_t) = 200 \<and>
   sixlowpan_queue_frames (example_config\<lparr>CONFIG_NET_6LOWPAN_FRAG := False\<rparr>)
       (example_extern 11) (example_ieee 7) 0 example_udp example_payload 200 None =
     Some (- E2BIG, example_ieee 7, \<lparr>g_uncomp_hdrlen = 48, g_frame_hdrlen = 60\<rparr>, 1)"
proof -
  let ?cfg = "example_config\<lparr>CONFIG_NET_6LOWPAN_FRAG := False\<rparr>"
  let ?h = "headers_of ?cfg (example_extern 11) (example_ieee 7) 0 example_udp 200 None"
  have a: "\<not> CONFIG_NET_6LOWPAN_FRAG ?cfg" by simp
  have b: "0 \<le> framer_hdrlen_of (example_extern 11) (example_ieee 7)"
    by (simp add: framer_hdrlen_of_def example_extern_def)
  have g: "fst ?h = \<lparr>g_uncomp_hdrlen = 48, g_frame_hdrlen = 60\<rparr>"
    by (simp add: queuer_defs example_defs)
  have hdr: "?h = (\<lparr>g_uncomp_hdrlen = 48, g_frame_hdrlen = 60\<rparr>, snd ?h)"
    using g by (simp add: prod_eq_iff)
  have F: "CONFIG_NET_6LOWPAN_FRAMELEN ?cfg = 127" by (simp add: example_config_def)
  have fits: "uint (g_frame_hdrlen \<lparr>g_uncomp_hdrlen = 48, g_frame_hdrlen = 60\<rparr>)
                \<le> CONFIG_NET_6LOWPAN_FRAMELEN ?cfg"
    by (simp add: F)
  have big: "CONFIG_NET_6LOWPAN_FRAMELEN ?cfg
               - uint (g_frame_hdrlen \<lparr>g_uncomp_hdrlen = 48, g_frame_hdrlen = 60\<rparr>)
             < uint (200 :: size_t)"
    by (simp add: F)
  from oversize_without_frag [OF a b hdr fits big, of example_payload] a g F
  show ?thesis by simp
qed

text \<open>
  C8 as it is written fails when the headers alone are longer than the frame: the
  difference of line 338 is negative and becomes a large \<^verbatim>\<open>size_t\<close>, the test is false
  and the datagram is sent in one frame.  With a MAC header of 200 bytes and a UDP
  datagram of 300 bytes, \<^verbatim>\<open>g_frame_hdrlen\<close> is 249 and the call returns \<^verbatim>\<open>OK\<close> with a
  frame of 549 bytes.
\<close>

theorem oversize_without_frag_counterexample:
  "\<not> CONFIG_NET_6LOWPAN_FRAG (example_config\<lparr>CONFIG_NET_6LOWPAN_FRAG := False\<rparr>) \<and>
   CONFIG_NET_6LOWPAN_FRAMELEN (example_config\<lparr>CONFIG_NET_6LOWPAN_FRAG := False\<rparr>)
     - uint (g_frame_hdrlen (fst (headers_of (example_config\<lparr>CONFIG_NET_6LOWPAN_FRAG := False\<rparr>)
               (example_extern 200) (example_ieee 7) 0 example_udp 300 None)))
     < uint (300 :: size_t) \<and>
   result_code (sixlowpan_queue_frames (example_config\<lparr>CONFIG_NET_6LOWPAN_FRAG := False\<rparr>)
       (example_extern 200) (example_ieee 7) 0 example_udp example_payload 300 None) = Some OK \<and>
   map io_len (result_frames (sixlowpan_queue_frames
       (example_config\<lparr>CONFIG_NET_6LOWPAN_FRAG := False\<rparr>)
       (example_extern 200) (example_ieee 7) 0 example_udp example_payload 300 None)) = [549]"
proof (intro conjI)
  let ?cfg = "example_config\<lparr>CONFIG_NET_6LOWPAN_FRAG := False\<rparr>"
  show "\<not> CONFIG_NET_6LOWPAN_FRAG ?cfg" by simp
  have g: "fst (headers_of ?cfg (example_extern 200) (example_ieee 7) 0 example_udp 300 None)
             = \<lparr>g_uncomp_hdrlen = 48, g_frame_hdrlen = 249\<rparr>"
    by (simp add: queuer_defs example_defs)
  show "CONFIG_NET_6LOWPAN_FRAMELEN ?cfg
     - uint (g_frame_hdrlen (fst (headers_of ?cfg
               (example_extern 200) (example_ieee 7) 0 example_udp 300 None)))
     < uint (300 :: size_t)"
    by (simp only: g) (simp add: example_config_def)
  show "result_code (sixlowpan_queue_frames ?cfg
       (example_extern 200) (example_ieee 7) 0 example_udp example_payload 300 None) = Some OK"
    by (rule example_run_oversize(1))
  show "map io_len (result_frames (sixlowpan_queue_frames ?cfg
       (example_extern 200) (example_ieee 7) 0 example_udp example_payload 300 None)) = [549]"
    by (rule example_run_oversize(2))
qed

section \<open>The datagram tag\<close>

text \<open>
  C5.  After a call that returns \<^verbatim>\<open>OK\<close> the datagram tag of the interface is the tag at
  entry plus one (in 16 bits, so \<^verbatim>\<open>0xffff\<close> is followed by 0) when the datagram was
  fragmented, whatever the number of frames, and the tag at entry when it was sent in one
  frame.
\<close>

theorem dgramtag_after_send:
  assumes "sixlowpan_queue_frames cfg ext ieee pool destip buf buflen destmac =
             Some (OK, ieee', g', pool')"
  shows "i_dgramtag ieee' =
           (if needs_fragmentation cfg
                 (fst (headers_of cfg ext ieee pool destip buflen destmac)) buflen
            then i_dgramtag ieee + 1 else i_dgramtag ieee)"
  using assms
  by (auto simp add: sixlowpan_queue_frames_def framer_hdrlen_of_def headers_of_def
      iob_alloc_def Let_def split: prod.splits option.splits if_splits)

theorem dgramtag_after_send_witness:
  "\<exists>ieee' g' pool'.
     sixlowpan_queue_frames example_config (example_extern 11) (example_ieee 0xffff) 0
         example_udp example_payload 68 None = Some (OK, ieee', g', pool') \<and>
     length (i_framelist ieee') = 2 \<and> i_dgramtag ieee' = 0"
proof -
  have "\<exists>ieee' g' pool'.
     sixlowpan_queue_frames example_config (example_extern 11) (example_ieee 0xffff) 0
         example_udp example_payload 68 None = Some (OK, ieee', g', pool') \<and>
     length (i_framelist ieee') = 2"
    by (simp add: queuer_defs example_defs)
  then obtain ieee' g' pool' where
    r: "sixlowpan_queue_frames example_config (example_extern 11) (example_ieee 0xffff) 0
         example_udp example_payload 68 None = Some (OK, ieee', g', pool')"
    and l: "length (i_framelist ieee') = 2"
    by blast
  have "needs_fragmentation example_config
          (fst (headers_of example_config (example_extern 11) (example_ieee 0xffff) 0
                  example_udp 68 None)) 68"
    by (simp add: queuer_defs example_defs)
  with dgramtag_after_send [OF r] have "i_dgramtag ieee' = 0"
    by (simp add: example_ieee_def)
  with r l show ?thesis by blast
qed

end
